theory Spec2Isabelle
  imports Main "HOL-Library.Word" "HOL-Library.Signed_Division"
begin

section \<open>GPIO flexible glitch filter driver (gpio_flex_glitch_filter.c)\<close>

text \<open>
  A shallow embedding of \<^verbatim>\<open>components/driver/gpio/gpio_flex_glitch_filter.c\<close>.
  The driver owns one static group with a table of filter slots; every filter instance
  lives in heap memory obtained from \<^verbatim>\<open>heap_caps_calloc\<close>. The model threads an explicit
  state through each function: the slot table, the heap of instances and the sequence of
  low-level register commands issued so far.

  Pointers are addresses (\<open>nat\<close>); a pointer that may be \<^verbatim>\<open>NULL\<close> is an \<open>option\<close>.
  Undefined behaviour of the C code (a dereference of a pointer that is not live, a table
  write outside the array) is the result \<open>None\<close>; every defined run is \<open>Some\<close>.
\<close>

subsection \<open>Types\<close>

type_synonym uint32_t = "32 word"
type_synonym ptr = nat

datatype esp_err_t =
    ESP_OK
  | ESP_ERR_NO_MEM
  | ESP_ERR_INVALID_ARG
  | ESP_ERR_INVALID_STATE
  | ESP_ERR_NOT_FOUND

text \<open>
  Modelled from the spec: \<^verbatim>\<open>glitch_filter_fsm_t\<close> is declared in
  \<^verbatim>\<open>glitch_filter_priv.h\<close>, which is not part of the source file. Its values are the
  two lifecycle states, initial and enabled, that the source compares \<^verbatim>\<open>filter->fsm\<close>
  against.
\<close>

datatype glitch_filter_fsm_t = GLITCH_FILTER_FSM_INIT | GLITCH_FILTER_FSM_ENABLE

text \<open>The three static functions stored in the base struct's function pointers.\<close>

datatype filter_fn =
    gpio_flex_glitch_filter_del_fn
  | gpio_flex_glitch_filter_enable_fn
  | gpio_flex_glitch_filter_disable_fn

text \<open>
  Modelled from the spec: the base struct \<^verbatim>\<open>gpio_glitch_filter_t\<close> is declared in the
  same header. Its fields are the pin, the state and the three function pointers, all of
  which create writes.
\<close>

record gpio_glitch_filter_t =
  gpio_num :: int
  fsm :: glitch_filter_fsm_t
  del :: "filter_fn option"
  enable :: "filter_fn option"
  disable :: "filter_fn option"

text \<open>
  The only group is the static \<^verbatim>\<open>s_gpio_glitch_filter_group\<close>; a filter's \<^verbatim>\<open>group\<close>
  pointer is either \<^verbatim>\<open>NULL\<close> or its address.
\<close>

datatype group_ref = s_gpio_glitch_filter_group

record gpio_flex_glitch_filter_t =
  base :: gpio_glitch_filter_t
  group :: "group_ref option"
  filter_id :: uint32_t

text \<open>
  Modelled from the spec: the configuration record
  \<^verbatim>\<open>gpio_flex_glitch_filter_config_t\<close> is declared in a header that is not part of the
  source file. It holds the pin number and the window width and threshold in
  nanoseconds; the two durations enter the 32-bit tick computation of create.
\<close>

record gpio_flex_glitch_filter_config_t =
  cfg_gpio_num :: int
  window_width_ns :: uint32_t
  window_thres_ns :: uint32_t

text \<open>
  The constants, the macro and the clock query that the file uses and does not define
  are parameters: the number of filter slots, the largest window the hardware takes, the
  pin validity test and the crystal frequency in Hz (a C \<^verbatim>\<open>int\<close>). The number of
  slots bounds a loop counter of type \<^verbatim>\<open>int\<close>, so the theorems that convert between the
  counter and the stored 32-bit index take it to be below \<open>2 ^ 31\<close>.
\<close>

record platform =
  SOC_GPIO_FLEX_GLITCH_FILTER_NUM :: nat
  GPIO_LL_GLITCH_FILTER_MAX_WINDOW :: uint32_t
  GPIO_IS_VALID_GPIO :: "int \<Rightarrow> bool"
  esp_clk_xtal_freq :: int

text \<open>The low-level register operations, recorded in the order they are issued.\<close>

datatype ll_cmd =
    gpio_ll_glitch_filter_enable int bool
  | gpio_ll_glitch_filter_set_gpio int int
  | gpio_ll_glitch_filter_set_window_coeff int uint32_t uint32_t

record driver_state =
  filters :: "ptr option list"
  heap :: "ptr \<Rightarrow> gpio_flex_glitch_filter_t option"
  hw :: "ll_cmd list"

text \<open>At start the static group has every slot \<^verbatim>\<open>NULL\<close>, and nothing is allocated.\<close>

definition init_state :: "platform \<Rightarrow> driver_state" where
  "init_state plat =
     \<lparr>filters = replicate (SOC_GPIO_FLEX_GLITCH_FILTER_NUM plat) None,
      heap = (\<lambda>_. None),
      hw = []\<rparr>"

text \<open>
  The memory \<^verbatim>\<open>heap_caps_calloc\<close> hands out is zeroed: null pointers, index 0, and
  the state with enumerator value 0, taken to be the initial one (create writes the state
  before it returns the instance, and frees the instance on every other path).
\<close>

definition zeroed_filter :: gpio_flex_glitch_filter_t where
  "zeroed_filter =
     \<lparr>base = \<lparr>gpio_num = 0, fsm = GLITCH_FILTER_FSM_INIT,
               del = None, enable = None, disable = None\<rparr>,
      group = None,
      filter_id = 0\<rparr>"

subsection \<open>The group registry\<close>

text \<open>
  The search loop of \<^verbatim>\<open>gpio_filter_register_to_group\<close>, started at index \<open>j\<close>: it
  returns the local \<^verbatim>\<open>filter_id\<close> (\<open>-1\<close> when no slot was free) and the table. The
  whole loop runs inside the critical section, so it is one atomic step of the model.
\<close>

function register_scan :: "nat \<Rightarrow> ptr option list \<Rightarrow> ptr \<Rightarrow> nat \<Rightarrow> int \<times> ptr option list" where
  "register_scan n tbl flt j =
     (if j < n then
        (if tbl ! j = None then (int j, tbl[j := Some flt])
         else register_scan n tbl flt (Suc j))
      else (-1, tbl))"
  by pat_completeness auto
termination
  by (relation "measure (\<lambda>(n, tbl, flt, j). n - j)") auto

declare register_scan.simps [simp del]

definition gpio_filter_register_to_group ::
  "platform \<Rightarrow> driver_state \<Rightarrow> ptr \<Rightarrow> (esp_err_t \<times> driver_state) option" where
  "gpio_filter_register_to_group plat s flt =
     (let (fid, tbl) = register_scan (SOC_GPIO_FLEX_GLITCH_FILTER_NUM plat) (filters s) flt 0;
          s1 = s\<lparr>filters := tbl\<rparr>
      in if fid = -1 then Some (ESP_ERR_NOT_FOUND, s1)
         else (case heap s1 flt of
                 None \<Rightarrow> None
               | Some f \<Rightarrow>
                   Some (ESP_OK,
                         s1\<lparr>heap := (heap s1)(flt \<mapsto>
                               f\<lparr>filter_id := word_of_int fid,
                                 group := Some s_gpio_glitch_filter_group\<rparr>)\<rparr>)))"

text \<open>
  \<^verbatim>\<open>gpio_filter_destroy\<close>: the local \<^verbatim>\<open>int filter_id\<close> is the stored 32-bit value read
  as a signed integer. The table entry is cleared when the group pointer is set, whatever
  the entry holds; the memory is freed in both cases.
\<close>

definition gpio_filter_destroy ::
  "platform \<Rightarrow> driver_state \<Rightarrow> ptr \<Rightarrow> (esp_err_t \<times> driver_state) option" where
  "gpio_filter_destroy plat s flt =
     (case heap s flt of
        None \<Rightarrow> None
      | Some f \<Rightarrow>
          (let fid = sint (filter_id f) in
           case group f of
             Some g \<Rightarrow>
               if 0 \<le> fid \<and> fid < int (SOC_GPIO_FLEX_GLITCH_FILTER_NUM plat) then
                 Some (ESP_OK, s\<lparr>filters := (filters s)[nat fid := None],
                                 heap := (heap s)(flt := None)\<rparr>)
               else None
           | None \<Rightarrow> Some (ESP_OK, s\<lparr>heap := (heap s)(flt := None)\<rparr>)))"

subsection \<open>The instance operations\<close>

text \<open>
  The handle given to the three operations points to the base struct, which is the first
  member of the instance: \<^verbatim>\<open>__containerof\<close> yields the same address.
\<close>

definition gpio_flex_glitch_filter_del ::
  "platform \<Rightarrow> driver_state \<Rightarrow> ptr \<Rightarrow> (esp_err_t \<times> driver_state) option" where
  "gpio_flex_glitch_filter_del plat s flt =
     (case heap s flt of
        None \<Rightarrow> None
      | Some f \<Rightarrow>
          if fsm (base f) \<noteq> GLITCH_FILTER_FSM_INIT then Some (ESP_ERR_INVALID_STATE, s)
          else gpio_filter_destroy plat s flt)"

definition gpio_flex_glitch_filter_enable ::
  "driver_state \<Rightarrow> ptr \<Rightarrow> (esp_err_t \<times> driver_state) option" where
  "gpio_flex_glitch_filter_enable s flt =
     (case heap s flt of
        None \<Rightarrow> None
      | Some f \<Rightarrow>
          if fsm (base f) \<noteq> GLITCH_FILTER_FSM_INIT then Some (ESP_ERR_INVALID_STATE, s)
          else
            (let fid = sint (filter_id f) in
             Some (ESP_OK,
                   s\<lparr>hw := hw s @ [gpio_ll_glitch_filter_enable fid True],
                     heap := (heap s)(flt \<mapsto>
                       f\<lparr>base := (base f)\<lparr>fsm := GLITCH_FILTER_FSM_ENABLE\<rparr>\<rparr>)\<rparr>)))"

definition gpio_flex_glitch_filter_disable ::
  "driver_state \<Rightarrow> ptr \<Rightarrow> (esp_err_t \<times> driver_state) option" where
  "gpio_flex_glitch_filter_disable s flt =
     (case heap s flt of
        None \<Rightarrow> None
      | Some f \<Rightarrow>
          if fsm (base f) \<noteq> GLITCH_FILTER_FSM_ENABLE then Some (ESP_ERR_INVALID_STATE, s)
          else
            (let fid = sint (filter_id f) in
             Some (ESP_OK,
                   s\<lparr>hw := hw s @ [gpio_ll_glitch_filter_enable fid False],
                     heap := (heap s)(flt \<mapsto>
                       f\<lparr>base := (base f)\<lparr>fsm := GLITCH_FILTER_FSM_INIT\<rparr>\<rparr>)\<rparr>)))"

subsection \<open>Creation\<close>

text \<open>The three locals computed before the window check, in 32-bit unsigned arithmetic.\<close>

definition clk_freq_mhz :: "platform \<Rightarrow> uint32_t" where
  "clk_freq_mhz plat = word_of_int (esp_clk_xtal_freq plat sdiv 1000000)"

definition window_thres_ticks :: "platform \<Rightarrow> gpio_flex_glitch_filter_config_t \<Rightarrow> uint32_t" where
  "window_thres_ticks plat config = clk_freq_mhz plat * window_thres_ns config div 1000"

definition window_width_ticks :: "platform \<Rightarrow> gpio_flex_glitch_filter_config_t \<Rightarrow> uint32_t" where
  "window_width_ticks plat config = clk_freq_mhz plat * window_width_ns config div 1000"

text \<open>The condition of the window check, as the source writes it.\<close>

definition window_ok :: "platform \<Rightarrow> gpio_flex_glitch_filter_config_t \<Rightarrow> bool" where
  "window_ok plat config \<longleftrightarrow>
     window_thres_ticks plat config \<noteq> 0
     \<and> window_thres_ticks plat config \<le> window_width_ticks plat config
     \<and> window_width_ticks plat config \<le> GPIO_LL_GLITCH_FILTER_MAX_WINDOW plat"

text \<open>
  \<^verbatim>\<open>gpio_new_flex_glitch_filter\<close>. The arguments are the configuration pointer
  (\<open>None\<close> for \<^verbatim>\<open>NULL\<close>), whether the output pointer is non-null, and the answer of
  \<^verbatim>\<open>heap_caps_calloc\<close> for this call (\<open>None\<close> when it fails). The result carries the
  error code, the handle stored through the output pointer (if any) and the new state.
  Every jump to \<^verbatim>\<open>err\<close> before the allocation finds \<^verbatim>\<open>filter == NULL\<close> and only
  returns; after a failed registration it destroys the instance.
\<close>

definition gpio_new_flex_glitch_filter ::
  "platform \<Rightarrow> driver_state \<Rightarrow> gpio_flex_glitch_filter_config_t option \<Rightarrow> bool \<Rightarrow> ptr option
     \<Rightarrow> (esp_err_t \<times> ptr option \<times> driver_state) option" where
  "gpio_new_flex_glitch_filter plat s config ret_filter mem =
     (case config of
        None \<Rightarrow> Some (ESP_ERR_INVALID_ARG, None, s)
      | Some cfg \<Rightarrow>
          if \<not> ret_filter then Some (ESP_ERR_INVALID_ARG, None, s)
          else if \<not> GPIO_IS_VALID_GPIO plat (cfg_gpio_num cfg) then
            Some (ESP_ERR_INVALID_ARG, None, s)
          else if \<not> window_ok plat cfg then Some (ESP_ERR_INVALID_ARG, None, s)
          else
            (case mem of
               None \<Rightarrow> Some (ESP_ERR_NO_MEM, None, s)
             | Some flt \<Rightarrow>
                 (case gpio_filter_register_to_group plat
                         (s\<lparr>heap := (heap s)(flt \<mapsto> zeroed_filter)\<rparr>) flt of
                    None \<Rightarrow> None
                  | Some (ret, s2) \<Rightarrow>
                      if ret \<noteq> ESP_OK then
                        (case gpio_filter_destroy plat s2 flt of
                           None \<Rightarrow> None
                         | Some (r, s3) \<Rightarrow> Some (ret, None, s3))
                      else
                        (case heap s2 flt of
                           None \<Rightarrow> None
                         | Some f \<Rightarrow>
                             (let fid = sint (filter_id f);
                                  s3 = s2\<lparr>hw := hw s2 @
                                    [gpio_ll_glitch_filter_enable fid False,
                                     gpio_ll_glitch_filter_set_gpio fid (cfg_gpio_num cfg),
                                     gpio_ll_glitch_filter_set_window_coeff fid
                                       (window_width_ticks plat cfg) (window_thres_ticks plat cfg)]\<rparr>
                              in Some (ESP_OK, Some flt,
                                   s3\<lparr>heap := (heap s3)(flt \<mapsto>
                                     f\<lparr>base := (base f)
                                         \<lparr>gpio_num := cfg_gpio_num cfg,
                                          fsm := GLITCH_FILTER_FSM_INIT,
                                          del := Some gpio_flex_glitch_filter_del_fn,
                                          enable := Some gpio_flex_glitch_filter_enable_fn,
                                          disable := Some gpio_flex_glitch_filter_disable_fn\<rparr>\<rparr>)\<rparr>))))))"

subsection \<open>Callers\<close>

text \<open>
  A well-behaved allocator answers \<^verbatim>\<open>NULL\<close> or the address of memory that is not in
  use.
\<close>

definition calloc_ok :: "driver_state \<Rightarrow> ptr option \<Rightarrow> bool" where
  "calloc_ok s mem = (case mem of None \<Rightarrow> True | Some p \<Rightarrow> heap s p = None)"

text \<open>
  One call of the public interface: create with its arguments and the allocator's
  answer, or one of the three operations reached through a handle.
\<close>

datatype api_call =
    Create "gpio_flex_glitch_filter_config_t option" bool "ptr option"
  | Enable ptr
  | Disable ptr
  | Del ptr

fun step :: "platform \<Rightarrow> driver_state \<Rightarrow> api_call \<Rightarrow> (esp_err_t \<times> driver_state) option" where
  "step plat s (Create config ret_filter mem) =
     (case gpio_new_flex_glitch_filter plat s config ret_filter mem of
        None \<Rightarrow> None
      | Some (r, h, s') \<Rightarrow> Some (r, s'))"
| "step plat s (Enable h) = gpio_flex_glitch_filter_enable s h"
| "step plat s (Disable h) = gpio_flex_glitch_filter_disable s h"
| "step plat s (Del h) = gpio_flex_glitch_filter_del plat s h"

text \<open>A sequence of calls, with the error codes they return in order.\<close>

fun run :: "platform \<Rightarrow> driver_state \<Rightarrow> api_call list \<Rightarrow> (esp_err_t list \<times> driver_state) option" where
  "run plat s [] = Some ([], s)"
| "run plat s (c # cs) =
     (case step plat s c of
        None \<Rightarrow> None
      | Some (r, s') \<Rightarrow>
          (case run plat s' cs of
             None \<Rightarrow> None
           | Some (rs, s'') \<Rightarrow> Some (r # rs, s'')))"

definition call_ok :: "driver_state \<Rightarrow> api_call \<Rightarrow> bool" where
  "call_ok s c = (case c of Create config ret_filter mem \<Rightarrow> calloc_ok s mem | _ \<Rightarrow> True)"

text \<open>
  The states the driver can be in between calls: from the initial state, any call whose
  behaviour is defined leads to another such state. A call through a handle that is not
  live (never returned by create, or already destroyed) is undefined and leads nowhere;
  create is given a well-behaved allocator.
\<close>

inductive reachable :: "platform \<Rightarrow> driver_state \<Rightarrow> bool" for plat :: platform where
  start: "reachable plat (init_state plat)"
| call: "reachable plat s \<Longrightarrow> call_ok s c \<Longrightarrow> step plat s c = Some (r, s') \<Longrightarrow> reachable plat s'"

subsection \<open>Properties of states\<close>

definition occupied_slots :: "driver_state \<Rightarrow> nat" where
  "occupied_slots s = length (filter (\<lambda>e. e \<noteq> None) (filters s))"

text \<open>
  The registry invariant: the table has one entry per hardware unit; every live instance
  records the group and an index in range whose entry points back to it; every occupied
  entry points to a live instance that records this index.
\<close>

definition filter_inv :: "platform \<Rightarrow> driver_state \<Rightarrow> bool" where
  "filter_inv plat s \<longleftrightarrow>
     length (filters s) = SOC_GPIO_FLEX_GLITCH_FILTER_NUM plat
     \<and> (\<forall>p f. heap s p = Some f \<longrightarrow>
           group f = Some s_gpio_glitch_filter_group
           \<and> unat (filter_id f) < SOC_GPIO_FLEX_GLITCH_FILTER_NUM plat
           \<and> filters s ! unat (filter_id f) = Some p)
     \<and> (\<forall>i p. i < SOC_GPIO_FLEX_GLITCH_FILTER_NUM plat \<and> filters s ! i = Some p \<longrightarrow>
           (\<exists>f. heap s p = Some f \<and> unat (filter_id f) = i))"

text \<open>
  The instance a successful create leaves in memory for slot \<open>i\<close>: the fields written
  by the registration and by the end of create, on zeroed memory.
\<close>

definition created_filter :: "gpio_flex_glitch_filter_config_t \<Rightarrow> nat \<Rightarrow> gpio_flex_glitch_filter_t" where
  "created_filter cfg i =
     \<lparr>base = \<lparr>gpio_num = cfg_gpio_num cfg, fsm = GLITCH_FILTER_FSM_INIT,
               del = Some gpio_flex_glitch_filter_del_fn,
               enable = Some gpio_flex_glitch_filter_enable_fn,
               disable = Some gpio_flex_glitch_filter_disable_fn\<rparr>,
      group = Some s_gpio_glitch_filter_group,
      filter_id = word_of_int (int i)\<rparr>"

subsection \<open>An example platform\<close>

text \<open>
  Eight filter units, a window of at most 64 ticks, pins 0 to 30 and a 40 MHz crystal.
\<close>

definition demo_platform :: platform where
  "demo_platform =
     \<lparr>SOC_GPIO_FLEX_GLITCH_FILTER_NUM = 8,
      GPIO_LL_GLITCH_FILTER_MAX_WINDOW = 64,
      GPIO_IS_VALID_GPIO = (\<lambda>n. 0 \<le> n \<and> n \<le> 30),
      esp_clk_xtal_freq = 40000000\<rparr>"

definition demo_config :: gpio_flex_glitch_filter_config_t where
  "demo_config = \<lparr>cfg_gpio_num = 4, window_width_ns = 1000, window_thres_ns = 500\<rparr>"

text \<open>
  The state of the example platform after one successful create with the example
  configuration, the allocator having answered address 1.
\<close>

definition demo_state :: driver_state where
  "demo_state =
     \<lparr>filters = [Some 1, None, None, None, None, None, None, None],
      heap = (\<lambda>_. None)(1 \<mapsto> created_filter demo_config 0),
      hw = [gpio_ll_glitch_filter_enable 0 False,
            gpio_ll_glitch_filter_set_gpio 0 4,
            gpio_ll_glitch_filter_set_window_coeff 0 40 20]\<rparr>"

text \<open>
  A configuration whose durations, about 107 ms, make the 32-bit product with 40 MHz
  exceed \<open>2 ^ 32\<close>.
\<close>

definition demo_wrap_config :: gpio_flex_glitch_filter_config_t where
  "demo_wrap_config =
     \<lparr>cfg_gpio_num = 4, window_width_ns = 107374208, window_thres_ns = 107374208\<rparr>"

text \<open>A platform with a single filter unit, and a state in which that unit is taken.\<close>

definition demo_single :: platform where
  "demo_single = demo_platform\<lparr>SOC_GPIO_FLEX_GLITCH_FILTER_NUM := 1\<rparr>"

definition demo_full_state :: driver_state where
  "demo_full_state =
     \<lparr>filters = [Some 1],
      heap = (\<lambda>_. None)(1 \<mapsto> created_filter demo_config 0),
      hw = []\<rparr>"

section \<open>Proofs\<close>

subsection \<open>The search loop and the registry\<close>

lemma register_scan_found:
  "j \<le> i \<Longrightarrow> i < n \<Longrightarrow> tbl ! i = None \<Longrightarrow> (\<forall>k. j \<le> k \<and> k < i \<longrightarrow> tbl ! k \<noteq> None)
     \<Longrightarrow> register_scan n tbl flt j = (int i, tbl[i := Some flt])"
proof (induction n tbl flt j rule: register_scan.induct)
  case (1 n tbl flt j)
  show ?case
  proof (cases "j = i")
    case True
    with "1.prems" show ?thesis by (simp add: register_scan.simps)
  next
    case False
    with "1.prems" have lt: "j < i" and occ: "tbl ! j \<noteq> None" by auto
    from lt "1.prems" have "j < n" by simp
    moreover have "register_scan n tbl flt (Suc j) = (int i, tbl[i := Some flt])"
      using "1.IH" [OF \<open>j < n\<close> occ] lt "1.prems" by auto
    ultimately show ?thesis using occ by (subst register_scan.simps) auto
  qed
qed

lemma register_scan_full:
  "(\<forall>k. j \<le> k \<and> k < n \<longrightarrow> tbl ! k \<noteq> None) \<Longrightarrow> register_scan n tbl flt j = (-1, tbl)"
proof (induction n tbl flt j rule: register_scan.induct)
  case (1 n tbl flt j)
  show ?case
  proof (cases "j < n")
    case True
    with "1.prems" have occ: "tbl ! j \<noteq> None" by auto
    have "register_scan n tbl flt (Suc j) = (-1, tbl)"
      using "1.IH" [OF True occ] "1.prems" by auto
    with True occ show ?thesis by (subst register_scan.simps) simp
  next
    case False
    then show ?thesis by (subst register_scan.simps) simp
  qed
qed

lemma sint_filter_index:
  "i < 2 ^ 31 \<Longrightarrow> sint (word_of_int (int i) :: uint32_t) = int i"
  by (simp add: signed_of_nat signed_take_bit_int_eq_self)

lemma register_ok:
  assumes "heap s flt = Some f"
    and "i < SOC_GPIO_FLEX_GLITCH_FILTER_NUM plat"
    and "filters s ! i = None"
    and "\<forall>k<i. filters s ! k \<noteq> None"
  shows "gpio_filter_register_to_group plat s flt =
           Some (ESP_OK,
                 s\<lparr>filters := (filters s)[i := Some flt],
                   heap := (heap s)(flt \<mapsto>
                     f\<lparr>filter_id := word_of_int (int i),
                       group := Some s_gpio_glitch_filter_group\<rparr>)\<rparr>)"
proof -
  have "register_scan (SOC_GPIO_FLEX_GLITCH_FILTER_NUM plat) (filters s) flt 0
          = (int i, (filters s)[i := Some flt])"
    using assms by (intro register_scan_found) auto
  then show ?thesis
    using assms(1) by (simp add: gpio_filter_register_to_group_def)
qed

lemma register_full:
  assumes "\<forall>k<SOC_GPIO_FLEX_GLITCH_FILTER_NUM plat. filters s ! k \<noteq> None"
  shows "gpio_filter_register_to_group plat s flt = Some (ESP_ERR_NOT_FOUND, s)"
proof -
  have "register_scan (SOC_GPIO_FLEX_GLITCH_FILTER_NUM plat) (filters s) flt 0 = (-1, filters s)"
    using assms by (intro register_scan_full) auto
  then show ?thesis
    by (simp add: gpio_filter_register_to_group_def)
qed

lemma lowest_free_slot:
  assumes "\<exists>i<n. tbl ! i = None"
  obtains i where "i < n" and "tbl ! i = None" and "\<forall>k<i. tbl ! k \<noteq> None"
proof -
  define i where "i = (LEAST i. i < n \<and> tbl ! i = None)"
  from assms have "\<exists>i. i < n \<and> tbl ! i = None" by blast
  then have "i < n \<and> tbl ! i = None"
    unfolding i_def by (rule LeastI_ex)
  moreover have "\<forall>k<i. tbl ! k \<noteq> None"
  proof (intro allI impI)
    fix k assume "k < i"
    then have "\<not> (k < n \<and> tbl ! k = None)"
      unfolding i_def by (rule not_less_Least)
    with \<open>k < i\<close> \<open>i < n \<and> tbl ! i = None\<close> show "tbl ! k \<noteq> None" by simp
  qed
  ultimately show thesis using that by blast
qed

lemma create_ok:
  assumes "GPIO_IS_VALID_GPIO plat (cfg_gpio_num cfg)"
    and "window_ok plat cfg"
    and "i < SOC_GPIO_FLEX_GLITCH_FILTER_NUM plat"
    and "filters s ! i = None"
    and "\<forall>k<i. filters s ! k \<noteq> None"
  shows "gpio_new_flex_glitch_filter plat s (Some cfg) True (Some flt) =
           Some (ESP_OK, Some flt,
                 s\<lparr>filters := (filters s)[i := Some flt],
                   heap := (heap s)(flt \<mapsto> created_filter cfg i),
                   hw := hw s @
                     [gpio_ll_glitch_filter_enable (sint (word_of_int (int i) :: uint32_t)) False,
                      gpio_ll_glitch_filter_set_gpio (sint (word_of_int (int i) :: uint32_t)) (cfg_gpio_num cfg),
                      gpio_ll_glitch_filter_set_window_coeff (sint (word_of_int (int i) :: uint32_t))
                        (window_width_ticks plat cfg) (window_thres_ticks plat cfg)]\<rparr>)"
proof -
  let ?s1 = "s\<lparr>heap := (heap s)(flt \<mapsto> zeroed_filter)\<rparr>"
  have "gpio_filter_register_to_group plat ?s1 flt =
          Some (ESP_OK,
                ?s1\<lparr>filters := (filters ?s1)[i := Some flt],
                    heap := (heap ?s1)(flt \<mapsto>
                      zeroed_filter\<lparr>filter_id := word_of_int (int i),
                        group := Some s_gpio_glitch_filter_group\<rparr>)\<rparr>)"
    using assms(3-5) by (intro register_ok) simp_all
  then show ?thesis
    using assms(1,2)
    by (simp add: gpio_new_flex_glitch_filter_def created_filter_def zeroed_filter_def Let_def)
qed

subsection \<open>The paths through create\<close>

lemma create_full_any:
  assumes "GPIO_IS_VALID_GPIO plat (cfg_gpio_num cfg)"
    and "window_ok plat cfg"
    and "\<forall>k<SOC_GPIO_FLEX_GLITCH_FILTER_NUM plat. filters s ! k \<noteq> None"
  shows "gpio_new_flex_glitch_filter plat s (Some cfg) True (Some flt) =
           Some (ESP_ERR_NOT_FOUND, None, s\<lparr>heap := (heap s)(flt := None)\<rparr>)"
proof -
  let ?s1 = "s\<lparr>heap := (heap s)(flt \<mapsto> zeroed_filter)\<rparr>"
  have "gpio_filter_register_to_group plat ?s1 flt = Some (ESP_ERR_NOT_FOUND, ?s1)"
    using assms(3) by (intro register_full) simp
  moreover have "gpio_filter_destroy plat ?s1 flt = Some (ESP_OK, s\<lparr>heap := (heap s)(flt := None)\<rparr>)"
    by (simp add: gpio_filter_destroy_def zeroed_filter_def)
  ultimately show ?thesis
    using assms(1,2) by (simp add: gpio_new_flex_glitch_filter_def)
qed

lemma create_bad_window:
  "\<not> window_ok plat cfg \<Longrightarrow>
     gpio_new_flex_glitch_filter plat s (Some cfg) ret_filter mem = Some (ESP_ERR_INVALID_ARG, None, s)"
  by (simp add: gpio_new_flex_glitch_filter_def)

lemma create_bad_gpio:
  "\<not> GPIO_IS_VALID_GPIO plat (cfg_gpio_num cfg) \<Longrightarrow>
     gpio_new_flex_glitch_filter plat s (Some cfg) ret_filter mem = Some (ESP_ERR_INVALID_ARG, None, s)"
  by (simp add: gpio_new_flex_glitch_filter_def)

lemma create_no_mem:
  "GPIO_IS_VALID_GPIO plat (cfg_gpio_num cfg) \<Longrightarrow> window_ok plat cfg \<Longrightarrow>
     gpio_new_flex_glitch_filter plat s (Some cfg) True None = Some (ESP_ERR_NO_MEM, None, s)"
  by (simp add: gpio_new_flex_glitch_filter_def)

lemma create_null:
  "config = None \<or> \<not> ret_filter \<Longrightarrow>
     gpio_new_flex_glitch_filter plat s config ret_filter mem = Some (ESP_ERR_INVALID_ARG, None, s)"
  by (auto simp add: gpio_new_flex_glitch_filter_def split: option.splits)

text \<open>The outcomes of create, one per path through the function.\<close>

lemma create_cases:
  obtains
    (invalid) "gpio_new_flex_glitch_filter plat s config ret_filter mem = Some (ESP_ERR_INVALID_ARG, None, s)"
      and "config = None \<or> \<not> ret_filter \<or> \<not> GPIO_IS_VALID_GPIO plat (cfg_gpio_num (the config))
            \<or> \<not> window_ok plat (the config)"
  | (no_mem) cfg where "config = Some cfg" and "ret_filter" and "GPIO_IS_VALID_GPIO plat (cfg_gpio_num cfg)"
      and "window_ok plat cfg" and "mem = None"
      and "gpio_new_flex_glitch_filter plat s config ret_filter mem = Some (ESP_ERR_NO_MEM, None, s)"
  | (full) cfg flt where "config = Some cfg" and "ret_filter" and "GPIO_IS_VALID_GPIO plat (cfg_gpio_num cfg)"
      and "window_ok plat cfg" and "mem = Some flt"
      and "\<forall>k<SOC_GPIO_FLEX_GLITCH_FILTER_NUM plat. filters s ! k \<noteq> None"
      and "gpio_new_flex_glitch_filter plat s config ret_filter mem =
             Some (ESP_ERR_NOT_FOUND, None, s\<lparr>heap := (heap s)(flt := None)\<rparr>)"
  | (ok) cfg flt i where "config = Some cfg" and "ret_filter" and "GPIO_IS_VALID_GPIO plat (cfg_gpio_num cfg)"
      and "window_ok plat cfg" and "mem = Some flt"
      and "i < SOC_GPIO_FLEX_GLITCH_FILTER_NUM plat" and "filters s ! i = None"
      and "\<forall>k<i. filters s ! k \<noteq> None"
      and "gpio_new_flex_glitch_filter plat s config ret_filter mem =
             Some (ESP_OK, Some flt,
                 s\<lparr>filters := (filters s)[i := Some flt],
                   heap := (heap s)(flt \<mapsto> created_filter cfg i),
                   hw := hw s @
                     [gpio_ll_glitch_filter_enable (sint (word_of_int (int i) :: uint32_t)) False,
                      gpio_ll_glitch_filter_set_gpio (sint (word_of_int (int i) :: uint32_t)) (cfg_gpio_num cfg),
                      gpio_ll_glitch_filter_set_window_coeff (sint (word_of_int (int i) :: uint32_t))
                        (window_width_ticks plat cfg) (window_thres_ticks plat cfg)]\<rparr>)"
proof (cases "config = None \<or> \<not> ret_filter")
  case True
  then show thesis using invalid create_null by blast
next
  case False
  then obtain cfg where cfg: "config = Some cfg" and ret: "ret_filter" by auto
  show thesis
  proof (cases "GPIO_IS_VALID_GPIO plat (cfg_gpio_num cfg) \<and> window_ok plat cfg")
    case False
    then have "gpio_new_flex_glitch_filter plat s config ret_filter mem = Some (ESP_ERR_INVALID_ARG, None, s)"
      using cfg create_bad_gpio create_bad_window by blast
    then show thesis using invalid False cfg by simp
  next
    case True
    then have gpio: "GPIO_IS_VALID_GPIO plat (cfg_gpio_num cfg)" and win: "window_ok plat cfg"
      by simp_all
    show thesis
    proof (cases mem)
      case None
      have "gpio_new_flex_glitch_filter plat s config ret_filter mem = Some (ESP_ERR_NO_MEM, None, s)"
        using create_no_mem [OF gpio win] cfg ret None by simp
      then show thesis by (rule no_mem [OF cfg ret gpio win None])
    next
      case (Some flt)
      show thesis
      proof (cases "\<exists>i<SOC_GPIO_FLEX_GLITCH_FILTER_NUM plat. filters s ! i = None")
        case False
        then have occ: "\<forall>k<SOC_GPIO_FLEX_GLITCH_FILTER_NUM plat. filters s ! k \<noteq> None" by simp
        have "gpio_new_flex_glitch_filter plat s config ret_filter mem =
                Some (ESP_ERR_NOT_FOUND, None, s\<lparr>heap := (heap s)(flt := None)\<rparr>)"
          using create_full_any [OF gpio win occ] cfg ret Some by simp
        then show thesis by (rule full [OF cfg ret gpio win Some occ])
      next
        case free: True
        then obtain i where i: "i < SOC_GPIO_FLEX_GLITCH_FILTER_NUM plat" "filters s ! i = None"
            "\<forall>k<i. filters s ! k \<noteq> None"
          by (rule lowest_free_slot)
        have "gpio_new_flex_glitch_filter plat s config ret_filter mem =
             Some (ESP_OK, Some flt,
                 s\<lparr>filters := (filters s)[i := Some flt],
                   heap := (heap s)(flt \<mapsto> created_filter cfg i),
                   hw := hw s @
                     [gpio_ll_glitch_filter_enable (sint (word_of_int (int i) :: uint32_t)) False,
                      gpio_ll_glitch_filter_set_gpio (sint (word_of_int (int i) :: uint32_t)) (cfg_gpio_num cfg),
                      gpio_ll_glitch_filter_set_window_coeff (sint (word_of_int (int i) :: uint32_t))
                        (window_width_ticks plat cfg) (window_thres_ticks plat cfg)]\<rparr>)"
          using create_ok [OF gpio win i] cfg ret Some by simp
        then show thesis by (rule ok [OF cfg ret gpio win Some i])
      qed
    qed
  qed
qed

subsection \<open>Destroy and the three operations\<close>

lemma destroy_grouped:
  assumes "heap s flt = Some f" and "group f = Some g"
    and "0 \<le> sint (filter_id f)" and "sint (filter_id f) < int (SOC_GPIO_FLEX_GLITCH_FILTER_NUM plat)"
  shows "gpio_filter_destroy plat s flt =
           Some (ESP_OK, s\<lparr>filters := (filters s)[nat (sint (filter_id f)) := None],
                           heap := (heap s)(flt := None)\<rparr>)"
  using assms by (simp add: gpio_filter_destroy_def)

lemma destroy_ungrouped:
  assumes "heap s flt = Some f" and "group f = None"
  shows "gpio_filter_destroy plat s flt = Some (ESP_OK, s\<lparr>heap := (heap s)(flt := None)\<rparr>)"
  using assms by (simp add: gpio_filter_destroy_def)

lemma enable_ok:
  assumes "heap s flt = Some f" and "fsm (base f) = GLITCH_FILTER_FSM_INIT"
  shows "gpio_flex_glitch_filter_enable s flt =
           Some (ESP_OK,
                 s\<lparr>hw := hw s @ [gpio_ll_glitch_filter_enable (sint (filter_id f)) True],
                   heap := (heap s)(flt \<mapsto> f\<lparr>base := (base f)\<lparr>fsm := GLITCH_FILTER_FSM_ENABLE\<rparr>\<rparr>)\<rparr>)"
  using assms by (simp add: gpio_flex_glitch_filter_enable_def)

lemma enable_refused:
  assumes "heap s flt = Some f" and "fsm (base f) \<noteq> GLITCH_FILTER_FSM_INIT"
  shows "gpio_flex_glitch_filter_enable s flt = Some (ESP_ERR_INVALID_STATE, s)"
  using assms by (simp add: gpio_flex_glitch_filter_enable_def)

lemma disable_ok:
  assumes "heap s flt = Some f" and "fsm (base f) = GLITCH_FILTER_FSM_ENABLE"
  shows "gpio_flex_glitch_filter_disable s flt =
           Some (ESP_OK,
                 s\<lparr>hw := hw s @ [gpio_ll_glitch_filter_enable (sint (filter_id f)) False],
                   heap := (heap s)(flt \<mapsto> f\<lparr>base := (base f)\<lparr>fsm := GLITCH_FILTER_FSM_INIT\<rparr>\<rparr>)\<rparr>)"
  using assms by (simp add: gpio_flex_glitch_filter_disable_def)

lemma disable_refused:
  assumes "heap s flt = Some f" and "fsm (base f) \<noteq> GLITCH_FILTER_FSM_ENABLE"
  shows "gpio_flex_glitch_filter_disable s flt = Some (ESP_ERR_INVALID_STATE, s)"
  using assms by (simp add: gpio_flex_glitch_filter_disable_def)

lemma del_refused:
  assumes "heap s flt = Some f" and "fsm (base f) \<noteq> GLITCH_FILTER_FSM_INIT"
  shows "gpio_flex_glitch_filter_del plat s flt = Some (ESP_ERR_INVALID_STATE, s)"
  using assms by (simp add: gpio_flex_glitch_filter_del_def)

lemma del_destroys:
  assumes "heap s flt = Some f" and "fsm (base f) = GLITCH_FILTER_FSM_INIT"
  shows "gpio_flex_glitch_filter_del plat s flt = gpio_filter_destroy plat s flt"
  using assms by (simp add: gpio_flex_glitch_filter_del_def)

lemma sint_small:
  fixes w :: uint32_t
  assumes "unat w < 2 ^ 31"
  shows "sint w = int (unat w)"
proof -
  have "w = word_of_int (int (unat w))" by simp
  then have "sint w = sint (word_of_int (int (unat w)) :: uint32_t)" by simp
  also have "\<dots> = int (unat w)" using assms by (rule sint_filter_index)
  finally show ?thesis .
qed

subsection \<open>The registry invariant\<close>

lemma inv_init: "filter_inv plat (init_state plat)"
  by (simp add: filter_inv_def init_state_def)

lemma inv_eqI:
  assumes "filter_inv plat t" and "filters s' = filters t" and "heap s' = heap t"
  shows "filter_inv plat s'"
  using assms by (simp add: filter_inv_def)

lemma inv_insert:
  assumes inv: "filter_inv plat s"
    and i: "i < SOC_GPIO_FLEX_GLITCH_FILTER_NUM plat"
    and free: "filters s ! i = None"
    and fresh: "heap s p = None"
    and grp: "group f = Some s_gpio_glitch_filter_group"
    and fid: "unat (filter_id f) = i"
  shows "filter_inv plat (s\<lparr>filters := (filters s)[i := Some p], heap := (heap s)(p \<mapsto> f)\<rparr>)"
proof -
  let ?n = "SOC_GPIO_FLEX_GLITCH_FILTER_NUM plat"
  from inv have len: "length (filters s) = ?n"
    and live: "\<And>q g. heap s q = Some g \<Longrightarrow>
        group g = Some s_gpio_glitch_filter_group \<and> unat (filter_id g) < ?n
        \<and> filters s ! unat (filter_id g) = Some q"
    and slot: "\<And>j q. j < ?n \<Longrightarrow> filters s ! j = Some q \<Longrightarrow>
        \<exists>g. heap s q = Some g \<and> unat (filter_id g) = j"
    by (auto simp add: filter_inv_def)
  have a: "group g = Some s_gpio_glitch_filter_group \<and> unat (filter_id g) < ?n
        \<and> (filters s)[i := Some p] ! unat (filter_id g) = Some q"
    if "((heap s)(p \<mapsto> f)) q = Some g" for q g
  proof (cases "q = p")
    case True
    with that have "g = f" by simp
    with True i len grp fid show ?thesis by simp
  next
    case False
    with that have g: "heap s q = Some g" by simp
    from live [OF g] free have "unat (filter_id g) \<noteq> i" by auto
    with live [OF g] show ?thesis by simp
  qed
  have b: "\<exists>g. ((heap s)(p \<mapsto> f)) q = Some g \<and> unat (filter_id g) = j"
    if "j < ?n" and "(filters s)[i := Some p] ! j = Some q" for j q
  proof (cases "j = i")
    case True
    with that len have "q = p" by simp
    with True fid show ?thesis by simp
  next
    case False
    with that have "filters s ! j = Some q" by simp
    from slot [OF that(1) this] obtain g where g: "heap s q = Some g" "unat (filter_id g) = j"
      by blast
    with fresh have "q \<noteq> p" by auto
    with g show ?thesis by simp
  qed
  show ?thesis
    unfolding filter_inv_def using len a b by simp
qed

lemma inv_remove:
  assumes inv: "filter_inv plat s" and p: "heap s p = Some f"
  shows "filter_inv plat (s\<lparr>filters := (filters s)[unat (filter_id f) := None],
                             heap := (heap s)(p := None)\<rparr>)"
proof -
  let ?n = "SOC_GPIO_FLEX_GLITCH_FILTER_NUM plat"
  let ?i = "unat (filter_id f)"
  from inv have len: "length (filters s) = ?n"
    and live: "\<And>q g. heap s q = Some g \<Longrightarrow>
        group g = Some s_gpio_glitch_filter_group \<and> unat (filter_id g) < ?n
        \<and> filters s ! unat (filter_id g) = Some q"
    and slot: "\<And>j q. j < ?n \<Longrightarrow> filters s ! j = Some q \<Longrightarrow>
        \<exists>g. heap s q = Some g \<and> unat (filter_id g) = j"
    by (auto simp add: filter_inv_def)
  have a: "group g = Some s_gpio_glitch_filter_group \<and> unat (filter_id g) < ?n
        \<and> (filters s)[?i := None] ! unat (filter_id g) = Some q"
    if "((heap s)(p := None)) q = Some g" for q g
  proof -
    from that have qp: "q \<noteq> p" and g: "heap s q = Some g" by (auto split: if_splits)
    from live [OF g] live [OF p] qp have "unat (filter_id g) \<noteq> ?i" by auto
    with live [OF g] show ?thesis by simp
  qed
  have b: "\<exists>g. ((heap s)(p := None)) q = Some g \<and> unat (filter_id g) = j"
    if "j < ?n" and "(filters s)[?i := None] ! j = Some q" for j q
  proof -
    from that len have ji: "j \<noteq> ?i" by (auto simp add: nth_list_update split: if_splits)
    with that have "filters s ! j = Some q" by simp
    from slot [OF that(1) this] obtain g where g: "heap s q = Some g" "unat (filter_id g) = j"
      by blast
    with ji p have "q \<noteq> p" by auto
    with g show ?thesis by simp
  qed
  show ?thesis
    unfolding filter_inv_def using len a b by simp
qed

lemma inv_update:
  assumes inv: "filter_inv plat s" and p: "heap s p = Some f"
    and grp: "group f' = group f" and fid: "filter_id f' = filter_id f"
  shows "filter_inv plat (s\<lparr>heap := (heap s)(p \<mapsto> f')\<rparr>)"
proof -
  let ?n = "SOC_GPIO_FLEX_GLITCH_FILTER_NUM plat"
  from inv have len: "length (filters s) = ?n"
    and live: "\<And>q g. heap s q = Some g \<Longrightarrow>
        group g = Some s_gpio_glitch_filter_group \<and> unat (filter_id g) < ?n
        \<and> filters s ! unat (filter_id g) = Some q"
    and slot: "\<And>j q. j < ?n \<Longrightarrow> filters s ! j = Some q \<Longrightarrow>
        \<exists>g. heap s q = Some g \<and> unat (filter_id g) = j"
    by (auto simp add: filter_inv_def)
  have a: "group g = Some s_gpio_glitch_filter_group \<and> unat (filter_id g) < ?n
        \<and> filters s ! unat (filter_id g) = Some q"
    if "((heap s)(p \<mapsto> f')) q = Some g" for q g
  proof (cases "q = p")
    case True
    with that have "g = f'" by simp
    with True live [OF p] grp fid show ?thesis by simp
  next
    case False
    with that have "heap s q = Some g" by simp
    then show ?thesis by (rule live)
  qed
  have b: "\<exists>g. ((heap s)(p \<mapsto> f')) q = Some g \<and> unat (filter_id g) = j"
    if "j < ?n" and "filters s ! j = Some q" for j q
  proof -
    from slot [OF that] obtain g where g: "heap s q = Some g" "unat (filter_id g) = j"
      by blast
    show ?thesis
    proof (cases "q = p")
      case True
      with g p have "g = f" by simp
      with True g fid show ?thesis by simp
    next
      case False
      with g show ?thesis by simp
    qed
  qed
  show ?thesis
    unfolding filter_inv_def using len a b by simp
qed

lemma inv_create:
  assumes inv: "filter_inv plat s"
    and n: "SOC_GPIO_FLEX_GLITCH_FILTER_NUM plat < 2 ^ 31"
    and mem: "calloc_ok s mem"
    and res: "gpio_new_flex_glitch_filter plat s config ret_filter mem = Some (r, h, s')"
  shows "filter_inv plat s'"
proof (cases rule: create_cases [of plat s config ret_filter mem])
  case invalid
  with res inv show ?thesis by auto
next
  case (no_mem cfg)
  with res inv show ?thesis by auto
next
  case (full cfg flt)
  with mem have "heap s flt = None" by (simp add: calloc_ok_def)
  then have "s\<lparr>heap := (heap s)(flt := None)\<rparr> = s" by (simp add: fun_upd_idem)
  with full res inv show ?thesis by auto
next
  case (ok cfg flt i)
  from ok mem have fresh: "heap s flt = None" by (simp add: calloc_ok_def)
  from ok n have "unat (filter_id (created_filter cfg i)) = i"
    by (simp add: created_filter_def unat_of_nat)
  then have t: "filter_inv plat
      (s\<lparr>filters := (filters s)[i := Some flt], heap := (heap s)(flt \<mapsto> created_filter cfg i)\<rparr>)"
    using inv ok fresh by (intro inv_insert) (simp_all add: created_filter_def)
  from ok res have eqs: "filters s' = (filters s)[i := Some flt]"
      "heap s' = (heap s)(flt \<mapsto> created_filter cfg i)"
    by auto
  show ?thesis by (rule inv_eqI [OF t]) (simp_all add: eqs)
qed

lemma inv_enable:
  assumes inv: "filter_inv plat s"
    and res: "gpio_flex_glitch_filter_enable s flt = Some (r, s')"
  shows "filter_inv plat s'"
proof -
  from res obtain f where f: "heap s flt = Some f"
    by (auto simp add: gpio_flex_glitch_filter_enable_def split: option.splits)
  show ?thesis
  proof (cases "fsm (base f) = GLITCH_FILTER_FSM_INIT")
    case True
    have t: "filter_inv plat (s\<lparr>heap := (heap s)(flt \<mapsto> f\<lparr>base := (base f)\<lparr>fsm := GLITCH_FILTER_FSM_ENABLE\<rparr>\<rparr>)\<rparr>)"
      using inv f by (rule inv_update) simp_all
    from enable_ok [OF f True] res have eqs: "filters s' = filters s"
        "heap s' = (heap s)(flt \<mapsto> f\<lparr>base := (base f)\<lparr>fsm := GLITCH_FILTER_FSM_ENABLE\<rparr>\<rparr>)"
      by auto
    show ?thesis by (rule inv_eqI [OF t]) (simp_all add: eqs)
  next
    case False
    with enable_refused [OF f] res inv show ?thesis by auto
  qed
qed

lemma inv_disable:
  assumes inv: "filter_inv plat s"
    and res: "gpio_flex_glitch_filter_disable s flt = Some (r, s')"
  shows "filter_inv plat s'"
proof -
  from res obtain f where f: "heap s flt = Some f"
    by (auto simp add: gpio_flex_glitch_filter_disable_def split: option.splits)
  show ?thesis
  proof (cases "fsm (base f) = GLITCH_FILTER_FSM_ENABLE")
    case True
    have t: "filter_inv plat (s\<lparr>heap := (heap s)(flt \<mapsto> f\<lparr>base := (base f)\<lparr>fsm := GLITCH_FILTER_FSM_INIT\<rparr>\<rparr>)\<rparr>)"
      using inv f by (rule inv_update) simp_all
    from disable_ok [OF f True] res have eqs: "filters s' = filters s"
        "heap s' = (heap s)(flt \<mapsto> f\<lparr>base := (base f)\<lparr>fsm := GLITCH_FILTER_FSM_INIT\<rparr>\<rparr>)"
      by auto
    show ?thesis by (rule inv_eqI [OF t]) (simp_all add: eqs)
  next
    case False
    with disable_refused [OF f] res inv show ?thesis by auto
  qed
qed

text \<open>In a state that satisfies the invariant, the recorded index of a live instance is in range.\<close>

lemma inv_index:
  assumes inv: "filter_inv plat s" and n: "SOC_GPIO_FLEX_GLITCH_FILTER_NUM plat < 2 ^ 31"
    and f: "heap s flt = Some f"
  shows "group f = Some s_gpio_glitch_filter_group"
    and "unat (filter_id f) < SOC_GPIO_FLEX_GLITCH_FILTER_NUM plat"
    and "filters s ! unat (filter_id f) = Some flt"
    and "0 \<le> sint (filter_id f)"
    and "sint (filter_id f) < int (SOC_GPIO_FLEX_GLITCH_FILTER_NUM plat)"
    and "nat (sint (filter_id f)) = unat (filter_id f)"
proof -
  from inv f show g: "group f = Some s_gpio_glitch_filter_group"
    and lt: "unat (filter_id f) < SOC_GPIO_FLEX_GLITCH_FILTER_NUM plat"
    and "filters s ! unat (filter_id f) = Some flt"
    by (auto simp add: filter_inv_def)
  from lt n have "unat (filter_id f) < 2 ^ 31" by simp
  then have eq: "sint (filter_id f) = int (unat (filter_id f))" by (rule sint_small)
  show "0 \<le> sint (filter_id f)" by (simp only: eq of_nat_0_le_iff)
  from lt show "sint (filter_id f) < int (SOC_GPIO_FLEX_GLITCH_FILTER_NUM plat)"
    by (simp only: eq of_nat_less_iff)
  show "nat (sint (filter_id f)) = unat (filter_id f)" by (simp only: eq nat_int)
qed

lemma del_ok:
  assumes inv: "filter_inv plat s" and n: "SOC_GPIO_FLEX_GLITCH_FILTER_NUM plat < 2 ^ 31"
    and f: "heap s flt = Some f" and st: "fsm (base f) = GLITCH_FILTER_FSM_INIT"
  shows "gpio_flex_glitch_filter_del plat s flt =
           Some (ESP_OK, s\<lparr>filters := (filters s)[unat (filter_id f) := None],
                           heap := (heap s)(flt := None)\<rparr>)"
proof -
  note idx = inv_index [OF inv n f]
  have "gpio_filter_destroy plat s flt =
           Some (ESP_OK, s\<lparr>filters := (filters s)[nat (sint (filter_id f)) := None],
                           heap := (heap s)(flt := None)\<rparr>)"
    using f idx(1,4,5) by (rule destroy_grouped)
  then show ?thesis
    by (simp only: del_destroys [OF f st] idx(6))
qed

lemma inv_del:
  assumes inv: "filter_inv plat s" and n: "SOC_GPIO_FLEX_GLITCH_FILTER_NUM plat < 2 ^ 31"
    and res: "gpio_flex_glitch_filter_del plat s flt = Some (r, s')"
  shows "filter_inv plat s'"
proof -
  from res obtain f where f: "heap s flt = Some f"
    by (auto simp add: gpio_flex_glitch_filter_del_def split: option.splits)
  show ?thesis
  proof (cases "fsm (base f) = GLITCH_FILTER_FSM_INIT")
    case True
    from del_ok [OF inv n f True] res
    have "s' = s\<lparr>filters := (filters s)[unat (filter_id f) := None], heap := (heap s)(flt := None)\<rparr>"
      by simp
    with inv_remove [OF inv f] show ?thesis by simp
  next
    case False
    with del_refused [OF f] res inv show ?thesis by auto
  qed
qed

lemma inv_step:
  assumes inv: "filter_inv plat s" and n: "SOC_GPIO_FLEX_GLITCH_FILTER_NUM plat < 2 ^ 31"
    and ok: "call_ok s c" and res: "step plat s c = Some (r, s')"
  shows "filter_inv plat s'"
proof (cases c)
  case (Create config ret_filter mem)
  from ok Create have mem: "calloc_ok s mem" by (simp add: call_ok_def)
  show ?thesis
  proof (cases "gpio_new_flex_glitch_filter plat s config ret_filter mem")
    case None
    with res Create show ?thesis by simp
  next
    case (Some x)
    obtain r0 h s0 where x: "x = (r0, h, s0)" by (cases x)
    with Some res Create have "r0 = r" and "s0 = s'" by simp_all
    with Some x have "gpio_new_flex_glitch_filter plat s config ret_filter mem = Some (r, h, s')"
      by simp
    with inv n mem show ?thesis by (rule inv_create)
  qed
next
  case (Enable h)
  with res have "gpio_flex_glitch_filter_enable s h = Some (r, s')" by simp
  with inv show ?thesis by (rule inv_enable)
next
  case (Disable h)
  with res have "gpio_flex_glitch_filter_disable s h = Some (r, s')" by simp
  with inv show ?thesis by (rule inv_disable)
next
  case (Del h)
  with res have "gpio_flex_glitch_filter_del plat s h = Some (r, s')" by simp
  with inv n show ?thesis by (rule inv_del)
qed

lemma reachable_inv:
  assumes "reachable plat s" and "SOC_GPIO_FLEX_GLITCH_FILTER_NUM plat < 2 ^ 31"
  shows "filter_inv plat s"
  using assms
proof (induction rule: reachable.induct)
  case start
  show ?case by (rule inv_init)
next
  case (call s c r s')
  then show ?case by (blast intro: inv_step)
qed

subsection \<open>Occupying three slots and reusing the middle one\<close>

lemma register_not_found_iff:
  "map_option fst (gpio_filter_register_to_group plat s flt) = Some ESP_ERR_NOT_FOUND
     \<longleftrightarrow> (\<forall>i<SOC_GPIO_FLEX_GLITCH_FILTER_NUM plat. filters s ! i \<noteq> None)"
proof (cases "\<exists>i<SOC_GPIO_FLEX_GLITCH_FILTER_NUM plat. filters s ! i = None")
  case True
  then obtain i where i: "i < SOC_GPIO_FLEX_GLITCH_FILTER_NUM plat" "filters s ! i = None"
      "\<forall>k<i. filters s ! k \<noteq> None"
    by (rule lowest_free_slot)
  then have "register_scan (SOC_GPIO_FLEX_GLITCH_FILTER_NUM plat) (filters s) flt 0
          = (int i, (filters s)[i := Some flt])"
    by (intro register_scan_found) auto
  then have "map_option fst (gpio_filter_register_to_group plat s flt) \<noteq> Some ESP_ERR_NOT_FOUND"
    by (auto simp add: gpio_filter_register_to_group_def Let_def split: option.splits)
  with True show ?thesis by auto
next
  case False
  then have occ: "\<forall>k<SOC_GPIO_FLEX_GLITCH_FILTER_NUM plat. filters s ! k \<noteq> None" by simp
  then show ?thesis by (simp add: register_full)
qed

lemma del_grouped:
  assumes "heap s flt = Some f" and "fsm (base f) = GLITCH_FILTER_FSM_INIT"
    and "group f = Some g" and "filter_id f = word_of_int (int i)"
    and "i < SOC_GPIO_FLEX_GLITCH_FILTER_NUM plat"
    and "SOC_GPIO_FLEX_GLITCH_FILTER_NUM plat < 2 ^ 31"
  shows "gpio_flex_glitch_filter_del plat s flt =
           Some (ESP_OK, s\<lparr>filters := (filters s)[i := None], heap := (heap s)(flt := None)\<rparr>)"
proof -
  from assms(5,6) have "i < 2 ^ 31" by simp
  then have si: "sint (filter_id f) = int i"
    unfolding assms(4) by (rule sint_filter_index)
  have "gpio_filter_destroy plat s flt =
           Some (ESP_OK, s\<lparr>filters := (filters s)[nat (sint (filter_id f)) := None],
                           heap := (heap s)(flt := None)\<rparr>)"
    using assms(1,3) by (rule destroy_grouped) (simp_all add: si assms(5))
  then show ?thesis
    by (simp add: del_destroys [OF assms(1,2)] si)
qed

lemma create_ok_step:
  assumes "GPIO_IS_VALID_GPIO plat (cfg_gpio_num cfg)"
    and "window_ok plat cfg"
    and "i < SOC_GPIO_FLEX_GLITCH_FILTER_NUM plat"
    and "filters s ! i = None"
    and "\<forall>k<i. filters s ! k \<noteq> None"
  shows "\<exists>s'. step plat s (Create (Some cfg) True (Some flt)) = Some (ESP_OK, s')
           \<and> filters s' = (filters s)[i := Some flt]
           \<and> heap s' = (heap s)(flt \<mapsto> created_filter cfg i)"
  by (simp add: create_ok [OF assms])

lemma reuse_scenario:
  assumes n3: "3 \<le> SOC_GPIO_FLEX_GLITCH_FILTER_NUM plat"
    and n: "SOC_GPIO_FLEX_GLITCH_FILTER_NUM plat < 2 ^ 31"
    and c0: "GPIO_IS_VALID_GPIO plat (cfg_gpio_num c0)" "window_ok plat c0"
    and c1: "GPIO_IS_VALID_GPIO plat (cfg_gpio_num c1)" "window_ok plat c1"
    and c2: "GPIO_IS_VALID_GPIO plat (cfg_gpio_num c2)" "window_ok plat c2"
    and c3: "GPIO_IS_VALID_GPIO plat (cfg_gpio_num c3)" "window_ok plat c3"
    and ps: "p0 \<noteq> p1" "p0 \<noteq> p2" "p1 \<noteq> p2" "p3 \<noteq> p0" "p3 \<noteq> p2"
  shows "\<exists>s3 s5.
           run plat (init_state plat)
             [Create (Some c0) True (Some p0), Create (Some c1) True (Some p1),
              Create (Some c2) True (Some p2)] = Some ([ESP_OK, ESP_OK, ESP_OK], s3)
           \<and> map_option filter_id (heap s3 p0) = Some 0
           \<and> map_option filter_id (heap s3 p1) = Some 1
           \<and> map_option filter_id (heap s3 p2) = Some 2
           \<and> run plat s3 [Del p1, Create (Some c3) True (Some p3)] = Some ([ESP_OK, ESP_OK], s5)
           \<and> map_option filter_id (heap s5 p3) = Some 1
           \<and> filters s5 ! 1 = Some p3"
proof -
  let ?n = "SOC_GPIO_FLEX_GLITCH_FILTER_NUM plat"
  let ?s0 = "init_state plat"
  have f0: "filters ?s0 = replicate ?n None" and h0: "heap ?s0 = (\<lambda>_. None)"
    by (simp_all add: init_state_def)
  from n3 have lt: "0 < ?n" "1 < ?n" "2 < ?n" by simp_all
  have two: "k < 2 \<longleftrightarrow> k = 0 \<or> k = 1" for k :: nat by auto
  have "filters ?s0 ! 0 = None" and "\<forall>k<0. filters ?s0 ! k \<noteq> None"
    using lt by (simp_all add: f0)
  with c0 lt(1) obtain s1
    where s1: "step plat ?s0 (Create (Some c0) True (Some p0)) = Some (ESP_OK, s1)"
    and f1: "filters s1 = (filters ?s0)[0 := Some p0]"
    and h1: "heap s1 = (heap ?s0)(p0 \<mapsto> created_filter c0 0)"
    using create_ok_step [of plat c0 0 ?s0 p0] by blast
  have "filters s1 ! 1 = None" and "\<forall>k<1. filters s1 ! k \<noteq> None"
    using lt by (simp_all add: f1 f0)
  with c1 lt(2) obtain s2
    where s2: "step plat s1 (Create (Some c1) True (Some p1)) = Some (ESP_OK, s2)"
    and f2: "filters s2 = (filters s1)[1 := Some p1]"
    and h2: "heap s2 = (heap s1)(p1 \<mapsto> created_filter c1 1)"
    using create_ok_step [of plat c1 1 s1 p1] by blast
  have "filters s2 ! 2 = None" and "\<forall>k<2. filters s2 ! k \<noteq> None"
    using lt by (simp_all add: f2 f1 f0 two)
  with c2 lt(3) obtain s3
    where s3: "step plat s2 (Create (Some c2) True (Some p2)) = Some (ESP_OK, s3)"
    and f3: "filters s3 = (filters s2)[2 := Some p2]"
    and h3: "heap s3 = (heap s2)(p2 \<mapsto> created_filter c2 2)"
    using create_ok_step [of plat c2 2 s2 p2] by blast
  have l1: "heap s3 p1 = Some (created_filter c1 1)"
    using ps by (simp add: h3 h2)
  let ?s4 = "s3\<lparr>filters := (filters s3)[1 := None], heap := (heap s3)(p1 := None)\<rparr>"
  have s4: "step plat s3 (Del p1) = Some (ESP_OK, ?s4)"
    using del_grouped [OF l1 _ _ _ lt(2) n] by (simp add: created_filter_def)
  have "filters ?s4 ! 1 = None" and "\<forall>k<1. filters ?s4 ! k \<noteq> None"
    using lt by (simp_all add: f3 f2 f1 f0)
  with c3 lt(2) obtain s5
    where s5: "step plat ?s4 (Create (Some c3) True (Some p3)) = Some (ESP_OK, s5)"
    and f5: "filters s5 = (filters ?s4)[1 := Some p3]"
    and h5: "heap s5 = (heap ?s4)(p3 \<mapsto> created_filter c3 1)"
    using create_ok_step [of plat c3 1 ?s4 p3] by blast
  have r3: "run plat ?s0
             [Create (Some c0) True (Some p0), Create (Some c1) True (Some p1),
              Create (Some c2) True (Some p2)] = Some ([ESP_OK, ESP_OK, ESP_OK], s3)"
    by (simp only: run.simps s1 s2 s3 option.case prod.case)
  have r5: "run plat s3 [Del p1, Create (Some c3) True (Some p3)] = Some ([ESP_OK, ESP_OK], s5)"
    by (simp only: run.simps s4 s5 option.case prod.case)
  have i0: "map_option filter_id (heap s3 p0) = Some 0"
    using ps by (simp add: h3 h2 h1 created_filter_def)
  have i1: "map_option filter_id (heap s3 p1) = Some 1"
    by (simp add: l1 created_filter_def)
  have i2: "map_option filter_id (heap s3 p2) = Some 2"
    by (simp add: h3 created_filter_def)
  have i3: "map_option filter_id (heap s5 p3) = Some 1"
    by (simp add: h5 created_filter_def)
  have t5: "filters s5 ! 1 = Some p3"
    using lt(2) by (simp add: f5 f3 f2 f1 f0)
  from r3 i0 i1 i2 r5 i3 t5 show ?thesis by blast
qed

subsection \<open>The example platform\<close>

lemma demo_clk: "clk_freq_mhz demo_platform = 40"
  by (simp add: clk_freq_mhz_def demo_platform_def)

lemma demo_thres_ticks: "window_thres_ticks demo_platform demo_config = 20"
  by (simp add: window_thres_ticks_def demo_clk demo_config_def)

lemma demo_width_ticks: "window_width_ticks demo_platform demo_config = 40"
  by (simp add: window_width_ticks_def demo_clk demo_config_def)

lemma demo_window_ok: "window_ok demo_platform demo_config"
  by (simp add: window_ok_def demo_thres_ticks demo_width_ticks) (simp add: demo_platform_def)

lemma demo_gpio_ok: "GPIO_IS_VALID_GPIO demo_platform (cfg_gpio_num demo_config)"
  by (simp add: demo_platform_def demo_config_def)

lemma demo_num: "SOC_GPIO_FLEX_GLITCH_FILTER_NUM demo_platform = 8"
  by (simp add: demo_platform_def)

lemma demo_init: "init_state demo_platform =
    \<lparr>filters = [None, None, None, None, None, None, None, None], heap = (\<lambda>_. None), hw = []\<rparr>"
  by (simp add: init_state_def demo_num eval_nat_numeral)

lemma demo_create:
  "gpio_new_flex_glitch_filter demo_platform (init_state demo_platform) (Some demo_config) True (Some 1)
     = Some (ESP_OK, Some 1, demo_state)"
proof -
  have "gpio_new_flex_glitch_filter demo_platform (init_state demo_platform) (Some demo_config) True (Some 1)
      = Some (ESP_OK, Some 1,
                 (init_state demo_platform)\<lparr>filters := (filters (init_state demo_platform))[0 := Some 1],
                   heap := (heap (init_state demo_platform))(1 \<mapsto> created_filter demo_config 0),
                   hw := hw (init_state demo_platform) @
                     [gpio_ll_glitch_filter_enable (sint (word_of_int (int 0) :: uint32_t)) False,
                      gpio_ll_glitch_filter_set_gpio (sint (word_of_int (int 0) :: uint32_t)) (cfg_gpio_num demo_config),
                      gpio_ll_glitch_filter_set_window_coeff (sint (word_of_int (int 0) :: uint32_t))
                        (window_width_ticks demo_platform demo_config) (window_thres_ticks demo_platform demo_config)]\<rparr>)"
    by (rule create_ok [OF demo_gpio_ok demo_window_ok]) (simp_all add: demo_init demo_num)
  then show ?thesis
    by (simp add: demo_init demo_state_def demo_thres_ticks demo_width_ticks) (simp add: demo_config_def)
qed

lemma demo_reachable: "reachable demo_platform demo_state"
proof -
  have "call_ok (init_state demo_platform) (Create (Some demo_config) True (Some 1))"
    by (simp add: call_ok_def calloc_ok_def init_state_def)
  moreover have "step demo_platform (init_state demo_platform) (Create (Some demo_config) True (Some 1))
      = Some (ESP_OK, demo_state)"
    using demo_create by simp
  ultimately show ?thesis
    using reachable.start by (rule reachable.call [rotated])
qed

lemma demo_created_id: "sint (filter_id (created_filter demo_config 0)) = 0"
  by (simp add: created_filter_def)

lemma demo_single_args:
  "GPIO_IS_VALID_GPIO demo_single (cfg_gpio_num demo_config)" "window_ok demo_single demo_config"
  using demo_gpio_ok demo_window_ok
  by (simp_all add: demo_single_def window_ok_def window_thres_ticks_def window_width_ticks_def
      clk_freq_mhz_def)

lemma demo_run_three:
  "run demo_platform (init_state demo_platform) [Create (Some demo_config) True (Some 1), Enable 1, Disable 1]
     = Some ([ESP_OK, ESP_OK, ESP_OK],
             demo_state\<lparr>hw := hw demo_state @ [gpio_ll_glitch_filter_enable 0 True,
                                                 gpio_ll_glitch_filter_enable 0 False]\<rparr>)"
proof -
  have a: "heap demo_state 1 = Some (created_filter demo_config 0)"
    by (simp add: demo_state_def)
  have "gpio_flex_glitch_filter_enable demo_state 1 = Some (ESP_OK,
      demo_state\<lparr>hw := hw demo_state @ [gpio_ll_glitch_filter_enable 0 True],
        heap := (heap demo_state)(1 \<mapsto> (created_filter demo_config 0)
           \<lparr>base := (base (created_filter demo_config 0))\<lparr>fsm := GLITCH_FILTER_FSM_ENABLE\<rparr>\<rparr>)\<rparr>)"
    using enable_ok [OF a] by (simp add: created_filter_def)
  moreover have "gpio_flex_glitch_filter_disable
      (demo_state\<lparr>hw := hw demo_state @ [gpio_ll_glitch_filter_enable 0 True],
        heap := (heap demo_state)(1 \<mapsto> (created_filter demo_config 0)
           \<lparr>base := (base (created_filter demo_config 0))\<lparr>fsm := GLITCH_FILTER_FSM_ENABLE\<rparr>\<rparr>)\<rparr>) 1
     = Some (ESP_OK, demo_state\<lparr>hw := hw demo_state @ [gpio_ll_glitch_filter_enable 0 True,
                                                 gpio_ll_glitch_filter_enable 0 False]\<rparr>)"
    by (simp add: gpio_flex_glitch_filter_disable_def created_filter_def)
      (simp add: demo_state_def created_filter_def)
  ultimately show ?thesis
    using demo_create by simp
qed

lemma demo_wrap_ticks:
  "window_thres_ticks demo_platform demo_wrap_config = 1"
  "window_width_ticks demo_platform demo_wrap_config = 1"
  by (simp_all add: window_thres_ticks_def window_width_ticks_def demo_clk demo_wrap_config_def)

lemma demo_wrap_window_ok: "window_ok demo_platform demo_wrap_config"
  by (simp add: window_ok_def demo_wrap_ticks) (simp add: demo_platform_def)

lemma demo_wrap_gpio_ok: "GPIO_IS_VALID_GPIO demo_platform (cfg_gpio_num demo_wrap_config)"
  by (simp add: demo_platform_def demo_wrap_config_def)

section \<open>Claims\<close>

subsection \<open>Null arguments\<close>

text \<open>
  Claim C10. When the configuration pointer or the output pointer is null, create returns
  the invalid-argument error and the state (slot table, memory, register commands) is
  what it was: nothing is validated, allocated, registered or written to the hardware.
\<close>

theorem create_null_argument:
  "config = None \<or> \<not> ret_filter \<Longrightarrow>
     gpio_new_flex_glitch_filter plat s config ret_filter mem = Some (ESP_ERR_INVALID_ARG, None, s)"
  by (rule create_null)

theorem create_null_argument_witness:
  "gpio_new_flex_glitch_filter demo_platform (init_state demo_platform) None True (Some 1)
     = Some (ESP_ERR_INVALID_ARG, None, init_state demo_platform)
   \<and> gpio_new_flex_glitch_filter demo_platform (init_state demo_platform) (Some demo_config) False (Some 1)
     = Some (ESP_ERR_INVALID_ARG, None, init_state demo_platform)"
  using create_null_argument [of None True demo_platform "init_state demo_platform" "Some 1"]
    create_null_argument [of "Some demo_config" False demo_platform "init_state demo_platform" "Some 1"]
  by simp

subsection \<open>The tick computation\<close>

text \<open>
  Where the product of the clock frequency in MHz and the duration in nanoseconds is
  below \<open>2 ^ 32\<close>, the 32-bit values create computes are the exact truncated quotients.
\<close>

lemma ticks_exact_when_product_fits:
  "(unat (clk_freq_mhz plat) * unat (window_thres_ns config) < 2 ^ 32 \<longrightarrow>
      unat (window_thres_ticks plat config)
        = unat (clk_freq_mhz plat) * unat (window_thres_ns config) div 1000)
   \<and> (unat (clk_freq_mhz plat) * unat (window_width_ns config) < 2 ^ 32 \<longrightarrow>
      unat (window_width_ticks plat config)
        = unat (clk_freq_mhz plat) * unat (window_width_ns config) div 1000)"
proof -
  have "unat (c * n div 1000) = unat c * unat n div 1000"
    if "unat c * unat n < 2 ^ 32" for c n :: uint32_t
  proof -
    from that have "unat (c * n) = unat c * unat n"
      using unat_mult_lem [of c n] by simp
    then show ?thesis by (simp add: unat_div)
  qed
  then show ?thesis
    by (simp add: window_thres_ticks_def window_width_ticks_def)
qed

text \<open>
  Claim C2. The threshold and width ticks create computes are to equal
  \<open>clk_mhz * ns / 1000\<close> in exact truncating integer arithmetic for every input. The code
  does not achieve this: it forms the product in 32 bits, where it wraps. On the example
  platform (40 MHz, maximum window 64) with a width and a threshold of 107374208 ns the
  formula gives 4294968 ticks for both, far above the maximum, while the code computes 1
  tick for both, lets the window pass its range check, returns success and programs the
  coefficients 1 and 1.
\<close>

theorem ticks_wrap_accepted:
  "unat (clk_freq_mhz demo_platform) * unat (window_width_ns demo_wrap_config) div 1000 = 4294968
   \<and> unat (clk_freq_mhz demo_platform) * unat (window_thres_ns demo_wrap_config) div 1000 = 4294968
   \<and> unat (GPIO_LL_GLITCH_FILTER_MAX_WINDOW demo_platform) = 64
   \<and> unat (window_width_ticks demo_platform demo_wrap_config) = 1
   \<and> unat (window_thres_ticks demo_platform demo_wrap_config) = 1
   \<and> map_option (\<lambda>(r, h, s). (r, h, hw s))
        (gpio_new_flex_glitch_filter demo_platform (init_state demo_platform)
           (Some demo_wrap_config) True (Some 1))
       = Some (ESP_OK, Some 1,
               [gpio_ll_glitch_filter_enable 0 False,
                gpio_ll_glitch_filter_set_gpio 0 4,
                gpio_ll_glitch_filter_set_window_coeff 0 1 1])"
proof -
  have c: "gpio_new_flex_glitch_filter demo_platform (init_state demo_platform)
             (Some demo_wrap_config) True (Some 1)
      = Some (ESP_OK, Some 1,
                 (init_state demo_platform)\<lparr>filters := (filters (init_state demo_platform))[0 := Some 1],
                   heap := (heap (init_state demo_platform))(1 \<mapsto> created_filter demo_wrap_config 0),
                   hw := hw (init_state demo_platform) @
                     [gpio_ll_glitch_filter_enable (sint (word_of_int (int 0) :: uint32_t)) False,
                      gpio_ll_glitch_filter_set_gpio (sint (word_of_int (int 0) :: uint32_t))
                        (cfg_gpio_num demo_wrap_config),
                      gpio_ll_glitch_filter_set_window_coeff (sint (word_of_int (int 0) :: uint32_t))
                        (window_width_ticks demo_platform demo_wrap_config)
                        (window_thres_ticks demo_platform demo_wrap_config)]\<rparr>)"
    by (rule create_ok [OF demo_wrap_gpio_ok demo_wrap_window_ok]) (simp_all add: demo_init demo_num)
  have m: "unat (GPIO_LL_GLITCH_FILTER_MAX_WINDOW demo_platform) = 64"
    by (simp add: demo_platform_def)
  have e: "unat (clk_freq_mhz demo_platform) * unat (window_width_ns demo_wrap_config) div 1000 = 4294968"
    "unat (clk_freq_mhz demo_platform) * unat (window_thres_ns demo_wrap_config) div 1000 = 4294968"
    by (simp_all add: demo_clk demo_wrap_config_def)
  show ?thesis
    unfolding c by (simp add: e m demo_wrap_ticks demo_init) (simp add: demo_wrap_config_def)
qed

subsection \<open>The window check\<close>

text \<open>
  Claim C1, as amended. For a call with non-null pointers and a pin the platform accepts,
  create returns the invalid-argument error if and only if the computed threshold is zero
  ticks, or exceeds the computed width, or the width exceeds the hardware maximum; with
  ticks inside these bounds the call gets past the window check (it returns success,
  out of memory or not found).
\<close>

theorem create_invalid_window_iff:
  assumes "GPIO_IS_VALID_GPIO plat (cfg_gpio_num cfg)"
  shows "map_option fst (gpio_new_flex_glitch_filter plat s (Some cfg) True mem) = Some ESP_ERR_INVALID_ARG
         \<longleftrightarrow> (window_thres_ticks plat cfg = 0
              \<or> window_width_ticks plat cfg < window_thres_ticks plat cfg
              \<or> GPIO_LL_GLITCH_FILTER_MAX_WINDOW plat < window_width_ticks plat cfg)"
proof -
  have win: "\<not> window_ok plat cfg \<longleftrightarrow>
               (window_thres_ticks plat cfg = 0
                \<or> window_width_ticks plat cfg < window_thres_ticks plat cfg
                \<or> GPIO_LL_GLITCH_FILTER_MAX_WINDOW plat < window_width_ticks plat cfg)"
    by (auto simp add: window_ok_def)
  have "map_option fst (gpio_new_flex_glitch_filter plat s (Some cfg) True mem) = Some ESP_ERR_INVALID_ARG
          \<longleftrightarrow> \<not> window_ok plat cfg"
    by (cases rule: create_cases [of plat s "Some cfg" True mem]) (use assms in auto)
  with win show ?thesis by simp
qed

theorem create_invalid_window_iff_witness:
  "map_option fst (gpio_new_flex_glitch_filter demo_platform (init_state demo_platform)
       (Some (demo_config\<lparr>window_thres_ns := 0\<rparr>)) True (Some 1)) = Some ESP_ERR_INVALID_ARG
   \<and> map_option fst (gpio_new_flex_glitch_filter demo_platform (init_state demo_platform)
       (Some demo_config) True (Some 1)) \<noteq> Some ESP_ERR_INVALID_ARG"
proof -
  have g: "GPIO_IS_VALID_GPIO demo_platform (cfg_gpio_num (demo_config\<lparr>window_thres_ns := 0\<rparr>))"
    using demo_gpio_ok by simp
  have z: "window_thres_ticks demo_platform (demo_config\<lparr>window_thres_ns := 0\<rparr>) = 0"
    by (simp add: window_thres_ticks_def)
  have m: "GPIO_LL_GLITCH_FILTER_MAX_WINDOW demo_platform = 64"
    by (simp add: demo_platform_def)
  show ?thesis
    using create_invalid_window_iff [OF g, of "init_state demo_platform" "Some 1"]
      create_invalid_window_iff [OF demo_gpio_ok, of "init_state demo_platform" "Some 1"]
    by (simp add: z demo_thres_ticks demo_width_ticks m)
qed

text \<open>
  For every configuration the equivalence fails: a pin the platform rejects (here 99), or
  a null output pointer, gives the invalid-argument error although the window is 20 and
  40 ticks with a maximum of 64.
\<close>

theorem create_invalid_pin_counterexample:
  "\<not> (map_option fst (gpio_new_flex_glitch_filter demo_platform (init_state demo_platform)
          (Some (demo_config\<lparr>cfg_gpio_num := 99\<rparr>)) True (Some 1)) = Some ESP_ERR_INVALID_ARG
       \<longleftrightarrow> (window_thres_ticks demo_platform (demo_config\<lparr>cfg_gpio_num := 99\<rparr>) = 0
            \<or> window_width_ticks demo_platform (demo_config\<lparr>cfg_gpio_num := 99\<rparr>)
                < window_thres_ticks demo_platform (demo_config\<lparr>cfg_gpio_num := 99\<rparr>)
            \<or> GPIO_LL_GLITCH_FILTER_MAX_WINDOW demo_platform
                < window_width_ticks demo_platform (demo_config\<lparr>cfg_gpio_num := 99\<rparr>)))
   \<and> \<not> (map_option fst (gpio_new_flex_glitch_filter demo_platform (init_state demo_platform)
          (Some demo_config) False (Some 1)) = Some ESP_ERR_INVALID_ARG
       \<longleftrightarrow> (window_thres_ticks demo_platform demo_config = 0
            \<or> window_width_ticks demo_platform demo_config < window_thres_ticks demo_platform demo_config
            \<or> GPIO_LL_GLITCH_FILTER_MAX_WINDOW demo_platform < window_width_ticks demo_platform demo_config))"
proof -
  have t: "window_thres_ticks demo_platform (demo_config\<lparr>cfg_gpio_num := 99\<rparr>) = 20"
    by (simp add: window_thres_ticks_def demo_clk demo_config_def)
  have w: "window_width_ticks demo_platform (demo_config\<lparr>cfg_gpio_num := 99\<rparr>) = 40"
    by (simp add: window_width_ticks_def demo_clk demo_config_def)
  have m: "GPIO_LL_GLITCH_FILTER_MAX_WINDOW demo_platform = 64"
    by (simp add: demo_platform_def)
  have p: "\<not> GPIO_IS_VALID_GPIO demo_platform (cfg_gpio_num (demo_config\<lparr>cfg_gpio_num := 99\<rparr>))"
    by (simp add: demo_platform_def)
  show ?thesis
    by (simp add: create_bad_gpio [OF p] create_null t w m demo_thres_ticks demo_width_ticks)
qed

subsection \<open>Releasing a slot\<close>

text \<open>
  Claim C8. For a live instance, destroy returns success and frees the instance. When the
  instance records the group (and its recorded index is a table index), the entry at that
  index is set to empty, whatever it held; when it records no group, the table is left as
  it is.
\<close>

theorem destroy_releases_slot:
  assumes "heap s flt = Some f"
  shows "(group f \<noteq> None \<and> 0 \<le> sint (filter_id f)
            \<and> sint (filter_id f) < int (SOC_GPIO_FLEX_GLITCH_FILTER_NUM plat) \<longrightarrow>
          gpio_filter_destroy plat s flt =
            Some (ESP_OK, s\<lparr>filters := (filters s)[nat (sint (filter_id f)) := None],
                            heap := (heap s)(flt := None)\<rparr>)
          \<and> (length (filters s) = SOC_GPIO_FLEX_GLITCH_FILTER_NUM plat \<longrightarrow>
               (filters s)[nat (sint (filter_id f)) := None] ! nat (sint (filter_id f)) = None))
       \<and> (group f = None \<longrightarrow>
          gpio_filter_destroy plat s flt = Some (ESP_OK, s\<lparr>heap := (heap s)(flt := None)\<rparr>))"
proof (intro conjI impI)
  assume g: "group f \<noteq> None \<and> 0 \<le> sint (filter_id f)
            \<and> sint (filter_id f) < int (SOC_GPIO_FLEX_GLITCH_FILTER_NUM plat)"
  then obtain grp where "group f = Some grp" by auto
  with assms g show "gpio_filter_destroy plat s flt =
            Some (ESP_OK, s\<lparr>filters := (filters s)[nat (sint (filter_id f)) := None],
                            heap := (heap s)(flt := None)\<rparr>)"
    by (intro destroy_grouped) simp_all
  assume "length (filters s) = SOC_GPIO_FLEX_GLITCH_FILTER_NUM plat"
  with g have "nat (sint (filter_id f)) < length (filters s)" by linarith
  then show "(filters s)[nat (sint (filter_id f)) := None] ! nat (sint (filter_id f)) = None"
    by simp
next
  assume "group f = None"
  with assms show "gpio_filter_destroy plat s flt = Some (ESP_OK, s\<lparr>heap := (heap s)(flt := None)\<rparr>)"
    by (rule destroy_ungrouped)
qed

theorem destroy_releases_slot_witness:
  "gpio_filter_destroy demo_platform demo_state 1 = Some (ESP_OK, init_state demo_platform\<lparr>hw := hw demo_state\<rparr>)
   \<and> gpio_filter_destroy demo_platform
        (demo_state\<lparr>heap := (heap demo_state)(2 \<mapsto> zeroed_filter)\<rparr>) 2 = Some (ESP_OK, demo_state)"
proof -
  have a: "heap demo_state 1 = Some (created_filter demo_config 0)"
    by (simp add: demo_state_def)
  have b: "heap (demo_state\<lparr>heap := (heap demo_state)(2 \<mapsto> zeroed_filter)\<rparr>) 2 = Some zeroed_filter"
    by simp
  have g: "group (created_filter demo_config 0) = Some s_gpio_glitch_filter_group"
    by (simp add: created_filter_def)
  have z: "group zeroed_filter = None"
    by (simp add: zeroed_filter_def)
  have h2: "(heap demo_state)(2 := None) = heap demo_state"
    by (rule fun_upd_idem) (simp add: demo_state_def)
  from destroy_releases_slot [OF a, of demo_platform] destroy_releases_slot [OF b, of demo_platform]
  show ?thesis
    by (simp add: g z demo_created_id demo_num h2)
       (simp add: demo_state_def demo_init)
qed

subsection \<open>Failing creates\<close>

text \<open>
  Claim C5. A create whose allocator answer is null or unused memory always returns, and
  when it returns an error the state is the one before the call: same table, hence the
  same number of occupied slots, and the same memory, so what was allocated during the
  call is free again; no handle is handed out.
\<close>

theorem create_failure_unwinds:
  assumes "calloc_ok s mem"
  shows "\<exists>r h s'. gpio_new_flex_glitch_filter plat s config ret_filter mem = Some (r, h, s')
           \<and> (r \<noteq> ESP_OK \<longrightarrow>
                s' = s \<and> h = None \<and> occupied_slots s' = occupied_slots s \<and> heap s' = heap s)"
proof (cases rule: create_cases [of plat s config ret_filter mem])
  case invalid
  then show ?thesis by simp
next
  case (no_mem cfg)
  then show ?thesis by simp
next
  case (full cfg flt)
  with assms have "heap s flt = None" by (simp add: calloc_ok_def)
  then have "s\<lparr>heap := (heap s)(flt := None)\<rparr> = s" by (simp add: fun_upd_idem)
  with full(7) show ?thesis by simp
next
  case (ok cfg flt i)
  then show ?thesis by simp
qed

theorem create_failure_unwinds_witness:
  "gpio_new_flex_glitch_filter demo_single demo_full_state (Some demo_config) True (Some 2)
     = Some (ESP_ERR_NOT_FOUND, None, demo_full_state)"
proof -
  have c: "calloc_ok demo_full_state (Some 2)"
    by (simp add: calloc_ok_def demo_full_state_def)
  have "\<forall>k<SOC_GPIO_FLEX_GLITCH_FILTER_NUM demo_single. filters demo_full_state ! k \<noteq> None"
    by (simp add: demo_single_def demo_full_state_def)
  then have "gpio_new_flex_glitch_filter demo_single demo_full_state (Some demo_config) True (Some 2)
     = Some (ESP_ERR_NOT_FOUND, None, demo_full_state\<lparr>heap := (heap demo_full_state)(2 := None)\<rparr>)"
    by (rule create_full_any [OF demo_single_args])
  with create_failure_unwinds [OF c, of demo_single "Some demo_config" True]
  show ?thesis by simp
qed

subsection \<open>The state machine\<close>

text \<open>
  Claim C4. For a live instance in a reachable state: enable is refused with the
  invalid-state error unless the instance is in the initial state, disable unless it is
  enabled, destroy unless it is in the initial state, and a refused call leaves the whole
  state as it was. A granted enable issues the enable command and moves the instance to
  enabled; a granted disable issues the disable command and moves it back to initial; a
  granted destroy empties the slot of the instance, which pointed to it, and frees the
  instance.
\<close>

theorem lifecycle_guards:
  assumes "reachable plat s"
    and "SOC_GPIO_FLEX_GLITCH_FILTER_NUM plat < 2 ^ 31"
    and "heap s flt = Some f"
  shows "(fsm (base f) \<noteq> GLITCH_FILTER_FSM_INIT \<longrightarrow>
            gpio_flex_glitch_filter_enable s flt = Some (ESP_ERR_INVALID_STATE, s))
       \<and> (fsm (base f) = GLITCH_FILTER_FSM_INIT \<longrightarrow>
            gpio_flex_glitch_filter_enable s flt =
              Some (ESP_OK,
                    s\<lparr>hw := hw s @ [gpio_ll_glitch_filter_enable (sint (filter_id f)) True],
                      heap := (heap s)(flt \<mapsto> f\<lparr>base := (base f)\<lparr>fsm := GLITCH_FILTER_FSM_ENABLE\<rparr>\<rparr>)\<rparr>))
       \<and> (fsm (base f) \<noteq> GLITCH_FILTER_FSM_ENABLE \<longrightarrow>
            gpio_flex_glitch_filter_disable s flt = Some (ESP_ERR_INVALID_STATE, s))
       \<and> (fsm (base f) = GLITCH_FILTER_FSM_ENABLE \<longrightarrow>
            gpio_flex_glitch_filter_disable s flt =
              Some (ESP_OK,
                    s\<lparr>hw := hw s @ [gpio_ll_glitch_filter_enable (sint (filter_id f)) False],
                      heap := (heap s)(flt \<mapsto> f\<lparr>base := (base f)\<lparr>fsm := GLITCH_FILTER_FSM_INIT\<rparr>\<rparr>)\<rparr>))
       \<and> (fsm (base f) \<noteq> GLITCH_FILTER_FSM_INIT \<longrightarrow>
            gpio_flex_glitch_filter_del plat s flt = Some (ESP_ERR_INVALID_STATE, s))
       \<and> (fsm (base f) = GLITCH_FILTER_FSM_INIT \<longrightarrow>
            gpio_flex_glitch_filter_del plat s flt =
              Some (ESP_OK, s\<lparr>filters := (filters s)[unat (filter_id f) := None],
                              heap := (heap s)(flt := None)\<rparr>)
            \<and> unat (filter_id f) < length (filters s)
            \<and> filters s ! unat (filter_id f) = Some flt)"
proof -
  from assms(1,2) have inv: "filter_inv plat s" by (rule reachable_inv)
  then have len: "length (filters s) = SOC_GPIO_FLEX_GLITCH_FILTER_NUM plat"
    by (simp add: filter_inv_def)
  note idx = inv_index [OF inv assms(2,3)]
  show ?thesis
    using enable_refused [OF assms(3)] enable_ok [OF assms(3)]
      disable_refused [OF assms(3)] disable_ok [OF assms(3)]
      del_refused [OF assms(3), of plat] del_ok [OF inv assms(2,3)] idx(2,3) len
    by simp
qed

theorem lifecycle_guards_witness:
  "gpio_flex_glitch_filter_disable demo_state 1 = Some (ESP_ERR_INVALID_STATE, demo_state)
   \<and> gpio_flex_glitch_filter_del demo_platform demo_state 1
       = Some (ESP_OK, init_state demo_platform\<lparr>hw := hw demo_state\<rparr>)
   \<and> map_option fst (gpio_flex_glitch_filter_enable demo_state 1) = Some ESP_OK"
proof -
  have n: "SOC_GPIO_FLEX_GLITCH_FILTER_NUM demo_platform < 2 ^ 31"
    by (simp add: demo_num)
  have a: "heap demo_state 1 = Some (created_filter demo_config 0)"
    by (simp add: demo_state_def)
  have st: "fsm (base (created_filter demo_config 0)) = GLITCH_FILTER_FSM_INIT"
    by (simp add: created_filter_def)
  have u: "unat (filter_id (created_filter demo_config 0)) = 0"
    by (simp add: created_filter_def)
  from lifecycle_guards [OF demo_reachable n a]
  show ?thesis
    by (simp add: st u) (simp add: demo_state_def demo_init)
qed

subsection \<open>The registry invariant in reachable states\<close>

text \<open>
  Claim C9. In every state reachable by create, enable, disable and destroy calls, the
  table has one entry per unit; a live instance records an index in range, the entry at
  that index points back to it, and no other entry does; an occupied entry points to a
  live instance that records this index; so an instance is live if and only if some
  entry points to it.
\<close>

theorem reachable_registry_invariant:
  assumes "reachable plat s"
    and "SOC_GPIO_FLEX_GLITCH_FILTER_NUM plat < 2 ^ 31"
  shows "length (filters s) = SOC_GPIO_FLEX_GLITCH_FILTER_NUM plat
       \<and> (\<forall>p f. heap s p = Some f \<longrightarrow>
             unat (filter_id f) < SOC_GPIO_FLEX_GLITCH_FILTER_NUM plat
             \<and> filters s ! unat (filter_id f) = Some p
             \<and> (\<forall>i<SOC_GPIO_FLEX_GLITCH_FILTER_NUM plat.
                   filters s ! i = Some p \<longrightarrow> i = unat (filter_id f)))
       \<and> (\<forall>i<SOC_GPIO_FLEX_GLITCH_FILTER_NUM plat. \<forall>p. filters s ! i = Some p \<longrightarrow>
             (\<exists>f. heap s p = Some f \<and> unat (filter_id f) = i))
       \<and> (\<forall>p. (\<exists>f. heap s p = Some f)
             \<longleftrightarrow> (\<exists>i<SOC_GPIO_FLEX_GLITCH_FILTER_NUM plat. filters s ! i = Some p))"
proof -
  let ?n = "SOC_GPIO_FLEX_GLITCH_FILTER_NUM plat"
  from assms have inv: "filter_inv plat s" by (rule reachable_inv)
  then have len: "length (filters s) = ?n"
    and live: "\<And>q g. heap s q = Some g \<Longrightarrow>
        unat (filter_id g) < ?n \<and> filters s ! unat (filter_id g) = Some q"
    and slot: "\<And>j q. j < ?n \<Longrightarrow> filters s ! j = Some q \<Longrightarrow>
        \<exists>g. heap s q = Some g \<and> unat (filter_id g) = j"
    by (auto simp add: filter_inv_def)
  have one: "i = unat (filter_id f)"
    if "heap s p = Some f" and "i < ?n" and "filters s ! i = Some p" for p f i
    using slot [OF that(2,3)] that(1) by auto
  have iff: "(\<exists>f. heap s p = Some f) \<longleftrightarrow> (\<exists>i<?n. filters s ! i = Some p)" for p
    using live slot by blast
  show ?thesis
    using len live slot one iff by blast
qed

theorem reachable_registry_invariant_witness:
  "length (filters demo_state) = 8
   \<and> heap demo_state 1 = Some (created_filter demo_config 0)
   \<and> unat (filter_id (created_filter demo_config 0)) = 0
   \<and> filters demo_state ! 0 = Some 1
   \<and> heap demo_state 2 = None
   \<and> filters demo_state ! 1 = None"
proof -
  have n: "SOC_GPIO_FLEX_GLITCH_FILTER_NUM demo_platform < 2 ^ 31"
    by (simp add: demo_num)
  from reachable_registry_invariant [OF demo_reachable n]
  show ?thesis
    by (simp add: demo_state_def created_filter_def)
qed

subsection \<open>Acquiring a slot\<close>

text \<open>
  Claim C3. For every state of the table, registering a live instance takes the lowest
  index whose entry is empty: it returns success, stores the instance in that entry and
  records the index and the group in the instance. It fails with the not-found error if
  and only if all entries are occupied, and then changes nothing. Consequently, from the
  initial state, three creates take slots 0, 1 and 2, and after destroying the instance in
  slot 1 the next create takes slot 1.
\<close>

theorem register_lowest_free:
  "(heap s flt = Some f \<and> length (filters s) = SOC_GPIO_FLEX_GLITCH_FILTER_NUM plat
      \<and> SOC_GPIO_FLEX_GLITCH_FILTER_NUM plat < 2 ^ 31
      \<and> i < SOC_GPIO_FLEX_GLITCH_FILTER_NUM plat \<and> filters s ! i = None
      \<and> (\<forall>k<i. filters s ! k \<noteq> None) \<longrightarrow>
        gpio_filter_register_to_group plat s flt =
          Some (ESP_OK,
                s\<lparr>filters := (filters s)[i := Some flt],
                  heap := (heap s)(flt \<mapsto>
                    f\<lparr>filter_id := of_nat i, group := Some s_gpio_glitch_filter_group\<rparr>)\<rparr>)
        \<and> (filters s)[i := Some flt] ! i = Some flt
        \<and> unat (of_nat i :: uint32_t) = i)
   \<and> (map_option fst (gpio_filter_register_to_group plat s flt) = Some ESP_ERR_NOT_FOUND
        \<longleftrightarrow> (\<forall>j<SOC_GPIO_FLEX_GLITCH_FILTER_NUM plat. filters s ! j \<noteq> None))
   \<and> ((\<forall>j<SOC_GPIO_FLEX_GLITCH_FILTER_NUM plat. filters s ! j \<noteq> None) \<longrightarrow>
        gpio_filter_register_to_group plat s flt = Some (ESP_ERR_NOT_FOUND, s))
   \<and> (3 \<le> SOC_GPIO_FLEX_GLITCH_FILTER_NUM plat \<and> SOC_GPIO_FLEX_GLITCH_FILTER_NUM plat < 2 ^ 31
      \<and> GPIO_IS_VALID_GPIO plat (cfg_gpio_num c0) \<and> window_ok plat c0
      \<and> GPIO_IS_VALID_GPIO plat (cfg_gpio_num c1) \<and> window_ok plat c1
      \<and> GPIO_IS_VALID_GPIO plat (cfg_gpio_num c2) \<and> window_ok plat c2
      \<and> GPIO_IS_VALID_GPIO plat (cfg_gpio_num c3) \<and> window_ok plat c3
      \<and> p0 \<noteq> p1 \<and> p0 \<noteq> p2 \<and> p1 \<noteq> p2 \<and> p3 \<noteq> p0 \<and> p3 \<noteq> p2 \<longrightarrow>
        (\<exists>s3 s5.
           run plat (init_state plat)
             [Create (Some c0) True (Some p0), Create (Some c1) True (Some p1),
              Create (Some c2) True (Some p2)] = Some ([ESP_OK, ESP_OK, ESP_OK], s3)
           \<and> map_option filter_id (heap s3 p0) = Some 0
           \<and> map_option filter_id (heap s3 p1) = Some 1
           \<and> map_option filter_id (heap s3 p2) = Some 2
           \<and> run plat s3 [Del p1, Create (Some c3) True (Some p3)] = Some ([ESP_OK, ESP_OK], s5)
           \<and> map_option filter_id (heap s5 p3) = Some 1
           \<and> filters s5 ! 1 = Some p3))"
proof (intro conjI impI)
  assume a: "heap s flt = Some f \<and> length (filters s) = SOC_GPIO_FLEX_GLITCH_FILTER_NUM plat
      \<and> SOC_GPIO_FLEX_GLITCH_FILTER_NUM plat < 2 ^ 31
      \<and> i < SOC_GPIO_FLEX_GLITCH_FILTER_NUM plat \<and> filters s ! i = None
      \<and> (\<forall>k<i. filters s ! k \<noteq> None)"
  then show "gpio_filter_register_to_group plat s flt =
          Some (ESP_OK,
                s\<lparr>filters := (filters s)[i := Some flt],
                  heap := (heap s)(flt \<mapsto>
                    f\<lparr>filter_id := of_nat i, group := Some s_gpio_glitch_filter_group\<rparr>)\<rparr>)"
    using register_ok [of s flt f i plat] by simp
  from a show "(filters s)[i := Some flt] ! i = Some flt" by simp
  from a have "i < 2 ^ 31" by simp
  then show "unat (of_nat i :: uint32_t) = i" by (simp add: unat_of_nat)
next
  show "map_option fst (gpio_filter_register_to_group plat s flt) = Some ESP_ERR_NOT_FOUND
        \<longleftrightarrow> (\<forall>j<SOC_GPIO_FLEX_GLITCH_FILTER_NUM plat. filters s ! j \<noteq> None)"
    by (rule register_not_found_iff)
next
  assume "\<forall>j<SOC_GPIO_FLEX_GLITCH_FILTER_NUM plat. filters s ! j \<noteq> None"
  then show "gpio_filter_register_to_group plat s flt = Some (ESP_ERR_NOT_FOUND, s)"
    by (rule register_full)
next
  assume "3 \<le> SOC_GPIO_FLEX_GLITCH_FILTER_NUM plat \<and> SOC_GPIO_FLEX_GLITCH_FILTER_NUM plat < 2 ^ 31
      \<and> GPIO_IS_VALID_GPIO plat (cfg_gpio_num c0) \<and> window_ok plat c0
      \<and> GPIO_IS_VALID_GPIO plat (cfg_gpio_num c1) \<and> window_ok plat c1
      \<and> GPIO_IS_VALID_GPIO plat (cfg_gpio_num c2) \<and> window_ok plat c2
      \<and> GPIO_IS_VALID_GPIO plat (cfg_gpio_num c3) \<and> window_ok plat c3
      \<and> p0 \<noteq> p1 \<and> p0 \<noteq> p2 \<and> p1 \<noteq> p2 \<and> p3 \<noteq> p0 \<and> p3 \<noteq> p2"
  then show "\<exists>s3 s5.
           run plat (init_state plat)
             [Create (Some c0) True (Some p0), Create (Some c1) True (Some p1),
              Create (Some c2) True (Some p2)] = Some ([ESP_OK, ESP_OK, ESP_OK], s3)
           \<and> map_option filter_id (heap s3 p0) = Some 0
           \<and> map_option filter_id (heap s3 p1) = Some 1
           \<and> map_option filter_id (heap s3 p2) = Some 2
           \<and> run plat s3 [Del p1, Create (Some c3) True (Some p3)] = Some ([ESP_OK, ESP_OK], s5)
           \<and> map_option filter_id (heap s5 p3) = Some 1
           \<and> filters s5 ! 1 = Some p3"
    by (intro reuse_scenario) simp_all
qed

theorem register_lowest_free_witness:
  "gpio_filter_register_to_group demo_platform
       (demo_state\<lparr>heap := (heap demo_state)(2 \<mapsto> zeroed_filter)\<rparr>) 2
     = Some (ESP_OK,
             demo_state\<lparr>filters := (filters demo_state)[1 := Some 2],
               heap := (heap demo_state)(2 \<mapsto>
                 zeroed_filter\<lparr>filter_id := 1, group := Some s_gpio_glitch_filter_group\<rparr>)\<rparr>)
   \<and> gpio_filter_register_to_group demo_single demo_full_state 1
       = Some (ESP_ERR_NOT_FOUND, demo_full_state)
   \<and> (\<exists>s3 s5.
         run demo_platform (init_state demo_platform)
           [Create (Some demo_config) True (Some 1), Create (Some demo_config) True (Some 2),
            Create (Some demo_config) True (Some 3)] = Some ([ESP_OK, ESP_OK, ESP_OK], s3)
         \<and> map_option filter_id (heap s3 1) = Some 0
         \<and> map_option filter_id (heap s3 2) = Some 1
         \<and> map_option filter_id (heap s3 3) = Some 2
         \<and> run demo_platform s3 [Del 2, Create (Some demo_config) True (Some 2)]
             = Some ([ESP_OK, ESP_OK], s5)
         \<and> map_option filter_id (heap s5 2) = Some 1
         \<and> filters s5 ! 1 = Some 2)"
proof -
  let ?s = "demo_state\<lparr>heap := (heap demo_state)(2 \<mapsto> zeroed_filter)\<rparr>"
  have a: "heap ?s 2 = Some zeroed_filter"
    and b: "length (filters ?s) = 8"
    and c: "filters ?s ! 1 = None" "filters ?s ! 0 \<noteq> None"
    by (simp_all add: demo_state_def)
  have d: "\<forall>j<SOC_GPIO_FLEX_GLITCH_FILTER_NUM demo_single. filters demo_full_state ! j \<noteq> None"
    by (simp add: demo_single_def demo_full_state_def)
  from register_lowest_free [where plat = demo_platform and s = ?s and flt = 2
      and f = zeroed_filter and i = 1
      and ?c0.0 = demo_config and ?c1.0 = demo_config and ?c2.0 = demo_config and ?c3.0 = demo_config
      and ?p0.0 = 1 and ?p1.0 = 2 and ?p2.0 = 3 and ?p3.0 = 2]
    register_lowest_free [where plat = demo_single and s = demo_full_state and flt = 1]
  show ?thesis
    using a b c d by (simp add: demo_num demo_gpio_ok demo_window_ok)
qed

subsection \<open>The register commands of a lifecycle\<close>

text \<open>
  Claim C6, as amended. After a successful create followed by enable and disable on the
  returned handle, both succeed, the instance is in the initial state, and the commands
  issued since before the create are, in this order and all for the slot of the instance:
  the defensive disable, the binding to the pin, the window coefficients, the enable,
  the disable.
\<close>

theorem create_enable_disable_commands:
  assumes "gpio_new_flex_glitch_filter plat s config ret_filter mem = Some (ESP_OK, h, s1)"
    and "SOC_GPIO_FLEX_GLITCH_FILTER_NUM plat < 2 ^ 31"
  shows "\<exists>cfg flt i s2 s3.
           config = Some cfg \<and> h = Some flt \<and> i < SOC_GPIO_FLEX_GLITCH_FILTER_NUM plat
           \<and> filters s ! i = None \<and> filters s1 = (filters s)[i := Some flt]
           \<and> map_option filter_id (heap s1 flt) = Some (of_nat i)
           \<and> gpio_flex_glitch_filter_enable s1 flt = Some (ESP_OK, s2)
           \<and> gpio_flex_glitch_filter_disable s2 flt = Some (ESP_OK, s3)
           \<and> map_option (\<lambda>f. fsm (base f)) (heap s3 flt) = Some GLITCH_FILTER_FSM_INIT
           \<and> hw s3 = hw s @
                [gpio_ll_glitch_filter_enable (int i) False,
                 gpio_ll_glitch_filter_set_gpio (int i) (cfg_gpio_num cfg),
                 gpio_ll_glitch_filter_set_window_coeff (int i)
                   (window_width_ticks plat cfg) (window_thres_ticks plat cfg),
                 gpio_ll_glitch_filter_enable (int i) True,
                 gpio_ll_glitch_filter_enable (int i) False]"
proof (cases rule: create_cases [of plat s config ret_filter mem])
  case invalid
  with assms(1) show ?thesis by simp
next
  case (no_mem cfg)
  with assms(1) show ?thesis by simp
next
  case (full cfg flt)
  with assms(1) show ?thesis by simp
next
  case (ok cfg flt i)
  from ok(6) assms(2) have "i < 2 ^ 31" by simp
  then have si: "sint (word_of_int (int i) :: uint32_t) = int i" by (rule sint_filter_index)
  let ?f1 = "created_filter cfg i"
  let ?f2 = "?f1\<lparr>base := (base ?f1)\<lparr>fsm := GLITCH_FILTER_FSM_ENABLE\<rparr>\<rparr>"
  let ?f3 = "?f2\<lparr>base := (base ?f2)\<lparr>fsm := GLITCH_FILTER_FSM_INIT\<rparr>\<rparr>"
  let ?s2 = "s1\<lparr>hw := hw s1 @ [gpio_ll_glitch_filter_enable (sint (filter_id ?f1)) True],
                heap := (heap s1)(flt \<mapsto> ?f2)\<rparr>"
  let ?s3 = "?s2\<lparr>hw := hw ?s2 @ [gpio_ll_glitch_filter_enable (sint (filter_id ?f2)) False],
                heap := (heap ?s2)(flt \<mapsto> ?f3)\<rparr>"
  from ok(9) assms(1) have h: "h = Some flt"
    and ft: "filters s1 = (filters s)[i := Some flt]"
    and hp: "heap s1 = (heap s)(flt \<mapsto> ?f1)"
    and hw1: "hw s1 = hw s @
                     [gpio_ll_glitch_filter_enable (sint (word_of_int (int i) :: uint32_t)) False,
                      gpio_ll_glitch_filter_set_gpio (sint (word_of_int (int i) :: uint32_t)) (cfg_gpio_num cfg),
                      gpio_ll_glitch_filter_set_window_coeff (sint (word_of_int (int i) :: uint32_t))
                        (window_width_ticks plat cfg) (window_thres_ticks plat cfg)]"
    by auto
  have l1: "heap s1 flt = Some ?f1" by (simp add: hp)
  have e: "gpio_flex_glitch_filter_enable s1 flt = Some (ESP_OK, ?s2)"
    using l1 by (rule enable_ok) (simp add: created_filter_def)
  have l2: "heap ?s2 flt = Some ?f2" by simp
  have d: "gpio_flex_glitch_filter_disable ?s2 flt = Some (ESP_OK, ?s3)"
    using l2 by (rule disable_ok) simp
  have fid: "filter_id ?f1 = of_nat i" "filter_id ?f2 = of_nat i"
    by (simp_all add: created_filter_def)
  have st: "map_option (\<lambda>f. fsm (base f)) (heap ?s3 flt) = Some GLITCH_FILTER_FSM_INIT"
    by simp
  have cmds: "hw ?s3 = hw s @
                [gpio_ll_glitch_filter_enable (int i) False,
                 gpio_ll_glitch_filter_set_gpio (int i) (cfg_gpio_num cfg),
                 gpio_ll_glitch_filter_set_window_coeff (int i)
                   (window_width_ticks plat cfg) (window_thres_ticks plat cfg),
                 gpio_ll_glitch_filter_enable (int i) True,
                 gpio_ll_glitch_filter_enable (int i) False]"
    using si by (simp add: hw1 created_filter_def)
  have "map_option filter_id (heap s1 flt) = Some (of_nat i)"
    by (simp add: l1 fid)
  with ok(1,6,7) h ft e d st cmds show ?thesis by blast
qed

theorem create_enable_disable_commands_witness:
  "map_option (\<lambda>(rs, s). (rs, hw s))
     (run demo_platform (init_state demo_platform)
        [Create (Some demo_config) True (Some 1), Enable 1, Disable 1])
   = Some ([ESP_OK, ESP_OK, ESP_OK],
           [gpio_ll_glitch_filter_enable 0 False,
            gpio_ll_glitch_filter_set_gpio 0 4,
            gpio_ll_glitch_filter_set_window_coeff 0 40 20,
            gpio_ll_glitch_filter_enable 0 True,
            gpio_ll_glitch_filter_enable 0 False])"
proof -
  have n: "SOC_GPIO_FLEX_GLITCH_FILTER_NUM demo_platform < 2 ^ 31"
    by (simp add: demo_num)
  from create_enable_disable_commands [OF demo_create n]
  show ?thesis
    unfolding demo_run_three by (simp add: demo_state_def)
qed

text \<open>
  The order with the defensive disable third, after the binding and the coefficients, is
  not the one the code issues: create disables the unit first.
\<close>

theorem command_order_counterexample:
  "map_option (\<lambda>(rs, s). hw s)
     (run demo_platform (init_state demo_platform)
        [Create (Some demo_config) True (Some 1), Enable 1, Disable 1])
   \<noteq> Some [gpio_ll_glitch_filter_set_gpio 0 4,
            gpio_ll_glitch_filter_set_window_coeff 0 40 20,
            gpio_ll_glitch_filter_enable 0 False,
            gpio_ll_glitch_filter_enable 0 True,
            gpio_ll_glitch_filter_enable 0 False]
   \<and> map_option (\<lambda>(rs, s). hw s)
     (run demo_platform (init_state demo_platform)
        [Create (Some demo_config) True (Some 1), Enable 1, Disable 1])
   = Some [gpio_ll_glitch_filter_enable 0 False,
           gpio_ll_glitch_filter_set_gpio 0 4,
           gpio_ll_glitch_filter_set_window_coeff 0 40 20,
           gpio_ll_glitch_filter_enable 0 True,
           gpio_ll_glitch_filter_enable 0 False]"
  unfolding demo_run_three by (simp add: demo_state_def)

end
